theory Spec2Isabelle
  imports Complex_Main
begin

section \<open>Vectors, rays and traces\<close>

text \<open>
  The geometry kernels of the tracer compute on C++ \<open>float\<close>s. The embedding works on
  the real numbers: every \<open>float\<close> operation is read as the exact operation, so the
  theorems below speak about the formulas the code evaluates, not about rounding.

  Modelled from the spec: the vector types and their operations (\<open>dot\<close>, \<open>cross\<close>,
  \<open>norm\<close>, \<open>norm_squared\<close>, \<open>unit\<close>, \<open>normalize\<close>) are declared in the math library
  header, which is not among the sources; they have their usual meaning. In HOL
  \<open>x / 0 = 0\<close>, so \<open>unit\<close> of the zero vector is the zero vector here (the code would
  produce NaNs); no theorem below rests on that case.
\<close>

datatype Vec3 = Vec3 (vx: real) (vy: real) (vz: real)

datatype Vec2 = Vec2 (ux: real) (uy: real)

definition vadd :: "Vec3 \<Rightarrow> Vec3 \<Rightarrow> Vec3" where
  "vadd a b = Vec3 (vx a + vx b) (vy a + vy b) (vz a + vz b)"

definition vsub :: "Vec3 \<Rightarrow> Vec3 \<Rightarrow> Vec3" where
  "vsub a b = Vec3 (vx a - vx b) (vy a - vy b) (vz a - vz b)"

definition smul :: "real \<Rightarrow> Vec3 \<Rightarrow> Vec3" where
  "smul k a = Vec3 (k * vx a) (k * vy a) (k * vz a)"

definition dot :: "Vec3 \<Rightarrow> Vec3 \<Rightarrow> real" where
  "dot a b = vx a * vx b + vy a * vy b + vz a * vz b"

definition cross :: "Vec3 \<Rightarrow> Vec3 \<Rightarrow> Vec3" where
  "cross a b = Vec3 (vy a * vz b - vz a * vy b)
                    (vz a * vx b - vx a * vz b)
                    (vx a * vy b - vy a * vx b)"

definition norm_squared :: "Vec3 \<Rightarrow> real" where
  "norm_squared a = dot a a"

definition vnorm :: "Vec3 \<Rightarrow> real" where
  "vnorm a = sqrt (norm_squared a)"

definition unit :: "Vec3 \<Rightarrow> Vec3" where
  "unit a = Vec3 (vx a / vnorm a) (vy a / vnorm a) (vz a / vnorm a)"

text \<open>
  Modelled from the spec: the ray and trace classes are declared in headers that are
  not among the sources. A ray has an origin, a direction and the distance interval
  \<open>dist_bounds\<close>, whose first component is \<open>t_min\<close> and whose second is \<open>t_max\<close>; a trace
  is \<open>{hit, distance, position, normal, origin}\<close>. The interval is mutable, so a \<open>hit\<close>
  routine that receives a \<open>const Ray&\<close> still tightens it (the sources assign to
  \<open>ray.dist_bounds.y\<close>); each \<open>hit\<close> below therefore returns the ray next to its trace.
\<close>

record Ray =
  point :: Vec3
  dir :: Vec3
  dist_bounds :: Vec2

record Trace =
  origin :: Vec3
  hit :: bool
  distance :: real
  position :: Vec3
  normal :: Vec3

section \<open>Triangle intersection (\<open>tri_mesh.cpp\<close>)\<close>

record Tri_Mesh_Vert =
  vert_position :: Vec3
  vert_normal :: Vec3

text \<open>
  A triangle holds a raw pointer to the vertex array of its mesh and three indices into
  it; the pointer is read without bounds checks, so the array is a function from
  indices to vertices.
\<close>

record Triangle =
  vertex_list :: "nat \<Rightarrow> Tri_Mesh_Vert"
  v0 :: nat
  v1 :: nat
  v2 :: nat

definition Triangle_hit :: "Triangle \<Rightarrow> Ray \<Rightarrow> Trace \<times> Ray" where
  "Triangle_hit tri ray =
    (let v_0 = vertex_list tri (v0 tri);
         v_1 = vertex_list tri (v1 tri);
         v_2 = vertex_list tri (v2 tri);
         e1 = vsub (vert_position v_1) (vert_position v_0);
         e2 = vsub (vert_position v_2) (vert_position v_0);
         s = vsub (point ray) (vert_position v_0);
         ret = \<lparr>origin = point ray, hit = False, distance = 0,
                position = Vec3 0 0 0, normal = Vec3 0 0 0\<rparr>;
         denom = dot (cross e1 (dir ray)) e2
     in if denom \<le> 1 / 1000000 then (ret\<lparr>hit := False\<rparr>, ray)
        else
          (let matx = Vec3 (dot (smul (- 1) (cross s e2)) (dir ray))
                           (dot (cross e1 (dir ray)) s)
                           (dot (smul (- 1) (cross s e2)) e1);
               uvt = smul (1 / denom) matx
           in if vz uvt < uy (dist_bounds ray) \<and> vz uvt > ux (dist_bounds ray) \<and>
                 vx uvt > 0 \<and> vy uvt > 0 \<and> vx uvt + vy uvt \<le> 1
              then
                (ret\<lparr>hit := True,
                     origin := point ray,
                     position := vsub (point ray) (smul (vz uvt) (dir ray)),
                     distance := 2,
                     normal := unit (vadd (vadd (smul (vx uvt) (vert_normal v_1))
                                                (smul (vy uvt) (vert_normal v_2)))
                                          (smul (1 - vx uvt - vy uvt) (vert_normal v_0)))\<rparr>,
                 ray\<lparr>dist_bounds := Vec2 (ux (dist_bounds ray)) (vz uvt)\<rparr>)
              else (ret\<lparr>hit := False\<rparr>, ray)))"

text \<open>
  The Moeller-Trumbore quantities as the specification words them (the standard
  cross-product formulas): with \<open>e1 = v1 - v0\<close>, \<open>e2 = v2 - v0\<close>, \<open>s = o - v0\<close>, the
  denominator is \<open>(e1 \<times> dir) \<cdot> e2\<close>, and \<open>u\<close>, \<open>v\<close>, \<open>t\<close> are the barycentric
  coordinates and the ray parameter of the point where the ray meets the plane.
\<close>

definition mt_e1 :: "Triangle \<Rightarrow> Vec3" where
  "mt_e1 tri = vsub (vert_position (vertex_list tri (v1 tri)))
                    (vert_position (vertex_list tri (v0 tri)))"

definition mt_e2 :: "Triangle \<Rightarrow> Vec3" where
  "mt_e2 tri = vsub (vert_position (vertex_list tri (v2 tri)))
                    (vert_position (vertex_list tri (v0 tri)))"

definition mt_s :: "Triangle \<Rightarrow> Ray \<Rightarrow> Vec3" where
  "mt_s tri ray = vsub (point ray) (vert_position (vertex_list tri (v0 tri)))"

definition mt_d :: "Triangle \<Rightarrow> Ray \<Rightarrow> real" where
  "mt_d tri ray = dot (cross (mt_e1 tri) (dir ray)) (mt_e2 tri)"

definition mt_u :: "Triangle \<Rightarrow> Ray \<Rightarrow> real" where
  "mt_u tri ray = dot (mt_s tri ray) (cross (dir ray) (mt_e2 tri)) / mt_d tri ray"

definition mt_v :: "Triangle \<Rightarrow> Ray \<Rightarrow> real" where
  "mt_v tri ray = dot (dir ray) (cross (mt_s tri ray) (mt_e1 tri)) / mt_d tri ray"

definition mt_t :: "Triangle \<Rightarrow> Ray \<Rightarrow> real" where
  "mt_t tri ray = dot (mt_e2 tri) (cross (mt_s tri ray) (mt_e1 tri)) / mt_d tri ray"

text \<open>The acceptance test as the specification states it.\<close>

definition mt_spec_hit :: "Triangle \<Rightarrow> Ray \<Rightarrow> bool" where
  "mt_spec_hit tri ray \<longleftrightarrow>
     \<not> \<bar>mt_d tri ray\<bar> \<le> 1 / 1000000 \<and>
     mt_u tri ray \<ge> 0 \<and> mt_v tri ray \<ge> 0 \<and> mt_u tri ray + mt_v tri ray \<le> 1 \<and>
     ux (dist_bounds ray) \<le> mt_t tri ray \<and> mt_t tri ray \<le> uy (dist_bounds ray)"

text \<open>The triangle of the specification's scenario 6, with any vertex normals.\<close>

definition scenario_verts :: "Vec3 \<Rightarrow> Vec3 \<Rightarrow> Vec3 \<Rightarrow> nat \<Rightarrow> Tri_Mesh_Vert" where
  "scenario_verts n0 n1 n2 i =
     (if i = 0 then \<lparr>vert_position = Vec3 0 0 0, vert_normal = n0\<rparr>
      else if i = 1 then \<lparr>vert_position = Vec3 1 0 0, vert_normal = n1\<rparr>
      else \<lparr>vert_position = Vec3 0 1 0, vert_normal = n2\<rparr>)"

definition scenario_tri :: "Vec3 \<Rightarrow> Vec3 \<Rightarrow> Vec3 \<Rightarrow> Triangle" where
  "scenario_tri n0 n1 n2 =
     \<lparr>vertex_list = scenario_verts n0 n1 n2, v0 = 0, v1 = 1, v2 = 2\<rparr>"

section \<open>Sphere intersection (\<open>shapes.cpp\<close>)\<close>

record Sphere =
  radius :: real

text \<open>
  \<open>Vec3::normalize\<close> (of the math library, unlike the \<open>const\<close> method \<open>unit\<close>) scales its
  receiver to unit length in place and returns it, so after
  \<open>ret.normal = ret.position.normalize()\<close> both fields hold the unit vector. No statement
  below speaks about the \<open>position\<close> field of a sphere's trace.
\<close>

definition Sphere_hit :: "Sphere \<Rightarrow> Ray \<Rightarrow> Trace \<times> Ray" where
  "Sphere_hit sph ray =
    (let ret = \<lparr>origin = point ray, hit = False, distance = 0,
                position = Vec3 0 0 0, normal = Vec3 0 0 0\<rparr>;
         b = dot (point ray) (dir ray);
         c = norm_squared (point ray) - radius sph * radius sph
     in if b * b - c < 0 then (ret, ray)
        else
          (let t1 = - b + sqrt (b * b - c);
               t2 = - b - sqrt (b * b - c);
               tmin = (if t1 < t2 then t1 else t2);
               tmax = (if tmin = t1 then t2 else t1)
           in if tmin < uy (dist_bounds ray) \<and> tmin > ux (dist_bounds ray)
              then
                (ret\<lparr>hit := True, distance := tmin,
                     position := unit (vadd (point ray) (smul tmin (dir ray))),
                     normal := unit (vadd (point ray) (smul tmin (dir ray)))\<rparr>,
                 ray\<lparr>dist_bounds := Vec2 (ux (dist_bounds ray)) tmin\<rparr>)
              else if tmax < uy (dist_bounds ray) \<and> tmax > ux (dist_bounds ray)
              then
                (ret\<lparr>hit := True, distance := tmax,
                     position := unit (vadd (point ray) (smul tmax (dir ray))),
                     normal := unit (vadd (point ray) (smul tmax (dir ray)))\<rparr>,
                 ray\<lparr>dist_bounds := Vec2 (ux (dist_bounds ray)) tmax\<rparr>)
              else (ret, ray)))"







section \<open>Scattering functions (\<open>bsdf.cpp\<close>)\<close>

text \<open>
  Modelled from the spec: the spectrum and the sample record are declared in headers
  that are not among the sources. A spectrum is three channels, \<open>Spectrum()\<close> is black
  and \<open>Spectrum(1.0)\<close> white; a sample carries the emitted light, the attenuation, the
  sampled direction and its pdf, and a fresh sample emits nothing.
\<close>

datatype Spectrum = Spectrum (sr: real) (sg: real) (sb: real)

record BSDF_Sample =
  emissive :: Spectrum
  attenuation :: Spectrum
  direction :: Vec3
  pdf :: real

definition reflect :: "Vec3 \<Rightarrow> Vec3" where
  "reflect d = Vec3 (- vx d) (vy d) (- vz d)"

text \<open>\<open>refract\<close> returns the direction and the flag it writes through \<open>was_internal\<close>.\<close>

definition refract :: "Vec3 \<Rightarrow> real \<Rightarrow> Vec3 \<times> bool" where
  "refract out_dir index_of_refraction =
    (let eta_t = (if vy out_dir > 0 then index_of_refraction else 1);
         eta_i = (if vy out_dir > 0 then 1 else index_of_refraction);
         out_x = - vx out_dir * eta_i / eta_t;
         out_z = - vz out_dir * eta_i / eta_t;
         out_y_sq = 1 - out_x * out_x - out_z * out_z
     in if out_y_sq > 0
        then (Vec3 out_x (if vy out_dir > 0 then - sqrt out_y_sq else sqrt out_y_sq) out_z,
              False)
        else (out_dir, True))"

record BSDF_Refract =
  index_of_refraction :: real

definition BSDF_Refract_sample :: "BSDF_Refract \<Rightarrow> Vec3 \<Rightarrow> BSDF_Sample" where
  "BSDF_Refract_sample bsdf out_dir =
    (let (d, was_internal) = refract out_dir (index_of_refraction bsdf)
     in \<lparr>emissive = Spectrum 0 0 0,
         attenuation = (if was_internal then Spectrum 0 0 0 else Spectrum 1 1 1),
         direction = d,
         pdf = 1\<rparr>)"

text \<open>The \<open>y'\<^sup>2\<close> of the specification: \<open>1 - x'\<^sup>2 - z'\<^sup>2\<close> with \<open>(x', z') = - \<eta> (x, z)\<close>.\<close>

definition snell_y_sq :: "Vec3 \<Rightarrow> real \<Rightarrow> real" where
  "snell_y_sq out_dir ior =
    (let eta = (if vy out_dir > 0 then 1 / ior else ior / 1)
     in 1 - (- eta * vx out_dir) * (- eta * vx out_dir)
          - (- eta * vz out_dir) * (- eta * vz out_dir))"

section \<open>Matrices\<close>

text \<open>
  Modelled from the spec: the matrix type is declared in the math library header, which
  is not among the sources. A \<open>Mat4\<close> is stored by columns: \<open>A[i]\<close> is column \<open>i\<close> and
  \<open>A[i][j]\<close> its component \<open>j\<close>. A matrix times a \<open>Vec3\<close> extends the vector by \<open>1\<close>,
  multiplies and projects back (divides by the fourth component).
\<close>

datatype Vec4 = Vec4 (wx: real) (wy: real) (wz: real) (ww: real)

datatype Mat4 = Mat4 (col0: Vec4) (col1: Vec4) (col2: Vec4) (col3: Vec4)

definition dot4 :: "Vec4 \<Rightarrow> Vec4 \<Rightarrow> real" where
  "dot4 a b = wx a * wx b + wy a * wy b + wz a * wz b + ww a * ww b"

definition vadd4 :: "Vec4 \<Rightarrow> Vec4 \<Rightarrow> Vec4" where
  "vadd4 a b = Vec4 (wx a + wx b) (wy a + wy b) (wz a + wz b) (ww a + ww b)"

definition smul4 :: "real \<Rightarrow> Vec4 \<Rightarrow> Vec4" where
  "smul4 k a = Vec4 (k * wx a) (k * wy a) (k * wz a) (k * ww a)"

definition madd :: "Mat4 \<Rightarrow> Mat4 \<Rightarrow> Mat4" where
  "madd A B = Mat4 (vadd4 (col0 A) (col0 B)) (vadd4 (col1 A) (col1 B))
                   (vadd4 (col2 A) (col2 B)) (vadd4 (col3 A) (col3 B))"

definition mat_vec4 :: "Mat4 \<Rightarrow> Vec4 \<Rightarrow> Vec4" where
  "mat_vec4 A v = vadd4 (vadd4 (smul4 (wx v) (col0 A)) (smul4 (wy v) (col1 A)))
                        (vadd4 (smul4 (wz v) (col2 A)) (smul4 (ww v) (col3 A)))"

definition project :: "Vec4 \<Rightarrow> Vec3" where
  "project v = Vec3 (wx v / ww v) (wy v / ww v) (wz v / ww v)"

definition mat_vec3 :: "Mat4 \<Rightarrow> Vec3 \<Rightarrow> Vec3" where
  "mat_vec3 A v = project (mat_vec4 A (Vec4 (vx v) (vy v) (vz v) 1))"

definition Vec4_of :: "Vec3 \<Rightarrow> real \<Rightarrow> Vec4" where
  "Vec4_of v w = Vec4 (vx v) (vy v) (vz v) w"

text \<open>
  Modelled from the spec: \<open>Mat4::det\<close> is declared in the math library header, which is
  not among the sources; the specification calls it \<open>det(A)\<close>, the determinant. It is
  written here by expansion into the 2x2 minors of the first two and the last two columns.
\<close>

definition det :: "Mat4 \<Rightarrow> real" where
  "det A =
    (let a = col0 A; b = col1 A; c = col2 A; d = col3 A;
         s0 = wx a * wy b - wy a * wx b;
         s1 = wx a * wz b - wz a * wx b;
         s2 = wx a * ww b - ww a * wx b;
         s3 = wy a * wz b - wz a * wy b;
         s4 = wy a * ww b - ww a * wy b;
         s5 = wz a * ww b - ww a * wz b;
         c5 = wz c * ww d - ww c * wz d;
         c4 = wy c * ww d - ww c * wy d;
         c3 = wy c * wz d - wz c * wy d;
         c2 = wx c * ww d - ww c * wx d;
         c1 = wx c * wz d - wz c * wx d;
         c0 = wx c * wy d - wy c * wx d
     in s0 * c5 - s1 * c4 + s2 * c3 + s3 * c2 - s4 * c1 + s5 * c0)"

definition Mat4_I :: Mat4 where
  "Mat4_I = Mat4 (Vec4 1 0 0 0) (Vec4 0 1 0 0) (Vec4 0 0 1 0) (Vec4 0 0 0 1)"

section \<open>Camera (\<open>Camera::generate_ray\<close>)\<close>

text \<open>
  The fields of the camera that \<open>generate_ray\<close> reads: the vertical field of view in
  degrees, the aspect ratio, the focal distance and the view-to-world matrix \<open>iview\<close>.
\<close>

record Camera =
  vert_fov :: real
  aspect_ratio :: real
  focal_dist :: real
  iview :: Mat4

text \<open>
  \<open>generate_ray\<close> ends with \<open>return Ray(o, iview * pos - o)\<close>; the model returns the two
  arguments handed to the ray constructor: the origin and the direction.
\<close>

definition generate_ray :: "Camera \<Rightarrow> Vec2 \<Rightarrow> Vec3 \<times> Vec3" where
  "generate_ray cam screen_coord =
    (let pos = Vec3 0 0 (- 1);
         vheight = tan (vert_fov cam * (pi / 180) / 2) * 2 * focal_dist cam;
         width = vheight * aspect_ratio cam;
         ratio = Vec2 width vheight;
         xy = Vec2 (ux screen_coord * ux ratio - ux ratio / 2)
                   (uy screen_coord * uy ratio - uy ratio / 2);
         pos = Vec3 (vx pos + ux xy) (vy pos + uy xy) (vz pos);
         org = mat_vec3 (iview cam) (Vec3 0 0 0)
     in (org, vsub (mat_vec3 (iview cam) pos) org))"

text \<open>The sensor point and the ray as the specification states them.\<close>

definition spec_sensor :: "Camera \<Rightarrow> Vec2 \<Rightarrow> Vec3" where
  "spec_sensor cam screen_coord =
    (let h = tan (vert_fov cam * (pi / 180) / 2) * focal_dist cam;
         w = h * aspect_ratio cam
     in Vec3 ((2 * ux screen_coord - 1) * w) ((2 * uy screen_coord - 1) * h)
             (- focal_dist cam))"

definition spec_generate_ray :: "Camera \<Rightarrow> Vec2 \<Rightarrow> Vec3 \<times> Vec3" where
  "spec_generate_ray cam screen_coord =
    (let org = mat_vec3 (iview cam) (Vec3 0 0 0)
     in (org, vsub (mat_vec3 (iview cam) (spec_sensor cam screen_coord)) org))"

section \<open>The half-edge mesh\<close>

text \<open>
  Modelled from the spec: the mesh class and its element types are declared in the mesh
  header, which is not among the sources; the specification (3.1) gives the fields the
  operations use. The mesh keeps its elements in four lists and refers to them by
  handles (list iterators). Here a handle is a natural number, the mesh lists the
  handles of its elements, and a store maps each handle to the element's fields. \<open>erase\<close> only records a
  handle in the matching set of erased elements; the element stays in its list and its
  handle stays readable until the sweep that follows an operation. The extra fields
  of subdivision (\<open>new_pos\<close>, \<open>is_new\<close>) are not touched by the operations modelled here
  and are left out.
\<close>

type_synonym VertexRef = nat
type_synonym EdgeRef = nat
type_synonym FaceRef = nat
type_synonym HalfedgeRef = nat

record Vertex =
  v_halfedge :: HalfedgeRef
  pos :: Vec3

record Edge =
  e_halfedge :: HalfedgeRef

record Face =
  f_halfedge :: HalfedgeRef
  boundary :: bool

record Halfedge =
  twin :: HalfedgeRef
  "next" :: HalfedgeRef
  vertex :: VertexRef
  edge :: EdgeRef
  face :: FaceRef

record Halfedge_Mesh =
  vertices :: "VertexRef list"
  edges :: "EdgeRef list"
  faces :: "FaceRef list"
  halfedges :: "HalfedgeRef list"
  vert :: "VertexRef \<Rightarrow> Vertex"
  edg :: "EdgeRef \<Rightarrow> Edge"
  fac :: "FaceRef \<Rightarrow> Face"
  hedge :: "HalfedgeRef \<Rightarrow> Halfedge"
  verased :: "VertexRef set"
  eerased :: "EdgeRef set"
  ferased :: "FaceRef set"
  herased :: "HalfedgeRef set"

subsection \<open>Field writes and \<open>erase\<close>\<close>

definition set_twin :: "HalfedgeRef \<Rightarrow> HalfedgeRef \<Rightarrow> Halfedge_Mesh \<Rightarrow> Halfedge_Mesh" where
  "set_twin h t M = M\<lparr>hedge := (hedge M)(h := (hedge M h)\<lparr>twin := t\<rparr>)\<rparr>"

definition set_next :: "HalfedgeRef \<Rightarrow> HalfedgeRef \<Rightarrow> Halfedge_Mesh \<Rightarrow> Halfedge_Mesh" where
  "set_next h n M = M\<lparr>hedge := (hedge M)(h := (hedge M h)\<lparr>next := n\<rparr>)\<rparr>"

definition set_vertex :: "HalfedgeRef \<Rightarrow> VertexRef \<Rightarrow> Halfedge_Mesh \<Rightarrow> Halfedge_Mesh" where
  "set_vertex h v M = M\<lparr>hedge := (hedge M)(h := (hedge M h)\<lparr>vertex := v\<rparr>)\<rparr>"

definition set_edge :: "HalfedgeRef \<Rightarrow> EdgeRef \<Rightarrow> Halfedge_Mesh \<Rightarrow> Halfedge_Mesh" where
  "set_edge h e M = M\<lparr>hedge := (hedge M)(h := (hedge M h)\<lparr>edge := e\<rparr>)\<rparr>"

definition set_face :: "HalfedgeRef \<Rightarrow> FaceRef \<Rightarrow> Halfedge_Mesh \<Rightarrow> Halfedge_Mesh" where
  "set_face h f M = M\<lparr>hedge := (hedge M)(h := (hedge M h)\<lparr>face := f\<rparr>)\<rparr>"

definition set_v_halfedge :: "VertexRef \<Rightarrow> HalfedgeRef \<Rightarrow> Halfedge_Mesh \<Rightarrow> Halfedge_Mesh" where
  "set_v_halfedge v h M = M\<lparr>vert := (vert M)(v := (vert M v)\<lparr>v_halfedge := h\<rparr>)\<rparr>"

definition set_pos :: "VertexRef \<Rightarrow> Vec3 \<Rightarrow> Halfedge_Mesh \<Rightarrow> Halfedge_Mesh" where
  "set_pos v p M = M\<lparr>vert := (vert M)(v := (vert M v)\<lparr>pos := p\<rparr>)\<rparr>"

definition set_e_halfedge :: "EdgeRef \<Rightarrow> HalfedgeRef \<Rightarrow> Halfedge_Mesh \<Rightarrow> Halfedge_Mesh" where
  "set_e_halfedge e h M = M\<lparr>edg := (edg M)(e := (edg M e)\<lparr>e_halfedge := h\<rparr>)\<rparr>"

definition set_f_halfedge :: "FaceRef \<Rightarrow> HalfedgeRef \<Rightarrow> Halfedge_Mesh \<Rightarrow> Halfedge_Mesh" where
  "set_f_halfedge f h M = M\<lparr>fac := (fac M)(f := (fac M f)\<lparr>f_halfedge := h\<rparr>)\<rparr>"

definition set_boundary :: "FaceRef \<Rightarrow> bool \<Rightarrow> Halfedge_Mesh \<Rightarrow> Halfedge_Mesh" where
  "set_boundary f b M = M\<lparr>fac := (fac M)(f := (fac M f)\<lparr>boundary := b\<rparr>)\<rparr>"

definition erase_v :: "VertexRef \<Rightarrow> Halfedge_Mesh \<Rightarrow> Halfedge_Mesh" where
  "erase_v v M = M\<lparr>verased := insert v (verased M)\<rparr>"

definition erase_e :: "EdgeRef \<Rightarrow> Halfedge_Mesh \<Rightarrow> Halfedge_Mesh" where
  "erase_e e M = M\<lparr>eerased := insert e (eerased M)\<rparr>"

definition erase_f :: "FaceRef \<Rightarrow> Halfedge_Mesh \<Rightarrow> Halfedge_Mesh" where
  "erase_f f M = M\<lparr>ferased := insert f (ferased M)\<rparr>"

definition erase_h :: "HalfedgeRef \<Rightarrow> Halfedge_Mesh \<Rightarrow> Halfedge_Mesh" where
  "erase_h h M = M\<lparr>herased := insert h (herased M)\<rparr>"

subsection \<open>Walks\<close>

text \<open>
  The operations walk \<open>next\<close> (around a face) or \<open>twin\<close> then \<open>next\<close> (around a vertex)
  until they come back to a halfedge. On a mesh with \<open>n\<close> halfedges whose pointers stay
  inside the mesh, a walk that has not come back after \<open>n\<close> steps never does: it has
  entered a cycle that misses its target, and the C++ loop runs forever. Every walk
  therefore gets \<open>n\<close> steps of fuel, and \<open>None\<close> stands for a loop that does not end.
\<close>

definition walk_fuel :: "Halfedge_Mesh \<Rightarrow> nat" where
  "walk_fuel M = length (halfedges M)"

text \<open>\<open>while (he->next() != target) he = he->next();\<close>\<close>

fun find_prev :: "nat \<Rightarrow> Halfedge_Mesh \<Rightarrow> HalfedgeRef \<Rightarrow> HalfedgeRef \<Rightarrow> HalfedgeRef option" where
  "find_prev 0 M target he = None"
| "find_prev (Suc k) M target he =
     (if next (hedge M he) \<noteq> target then find_prev k M target (next (hedge M he))
      else Some he)"

text \<open>
  Modelled from the spec: \<open>Vertex::neighborhood_halfedges\<close> is a helper of the mesh class
  whose body is not among the sources. By the specification the collapse redirects
  "all outgoing half-edges of the eliminated vertex", and those are reached by walking
  \<open>h -> h.twin.next\<close> from \<open>v.halfedge\<close> until the walk returns to it (the walk the
  sources themselves use in \<open>vertex_quadric\<close>).
\<close>

fun around_vertex :: "nat \<Rightarrow> Halfedge_Mesh \<Rightarrow> HalfedgeRef \<Rightarrow> HalfedgeRef \<Rightarrow> HalfedgeRef list
    \<Rightarrow> HalfedgeRef list option" where
  "around_vertex 0 M hi he acc = None"
| "around_vertex (Suc k) M hi he acc =
     (let he' = next (hedge M (twin (hedge M he)))
      in if he' \<noteq> hi then around_vertex k M hi he' (acc @ [he]) else Some (acc @ [he]))"

definition neighborhood_halfedges :: "Halfedge_Mesh \<Rightarrow> VertexRef \<Rightarrow> HalfedgeRef list option" where
  "neighborhood_halfedges M v =
     around_vertex (walk_fuel M) M (v_halfedge (vert M v)) (v_halfedge (vert M v)) []"

text \<open>
  Modelled from the spec: \<open>Edge::on_boundary\<close> belongs to the mesh class, not to the
  sources; a boundary edge is one with a boundary face on either side.
\<close>

definition on_boundary :: "Halfedge_Mesh \<Rightarrow> EdgeRef \<Rightarrow> bool" where
  "on_boundary M e =
     (boundary (fac M (face (hedge M (e_halfedge (edg M e))))) \<or>
      boundary (fac M (face (hedge M (twin (hedge M (e_halfedge (edg M e))))))))"

subsection \<open>\<open>Halfedge_Mesh::flip_edge\<close>\<close>

text \<open>
  \<open>flip_edge\<close> gathers the halfedges \<open>h\<close>, vertices \<open>v\<close> and edges \<open>eR\<close> of the two faces
  next to \<open>e\<close> in three vectors and then rewires through \<open>vector::at\<close>, which throws
  \<open>std::out_of_range\<close> on a bad index. A statement \<open>x.at(i)->field() = y.at(j)\<close> reads
  both handles before it writes, so each statement is a guard on the indices and a field
  write; a failing guard leaves the mesh as the earlier statements made it.
\<close>

datatype exn = out_of_range

definition push_unique :: "'a list \<Rightarrow> 'a \<Rightarrow> 'a list" where
  "push_unique xs a = (if a \<in> set xs then xs else xs @ [a])"

text \<open>
  First face: \<open>while (h.front() != hcurrent) { push hcurrent, its vertex, its edge;
  hcurrent = hcurrent->next(); l1edges++; }\<close>. The counter \<open>l1edges\<close> always equals the
  length of \<open>h\<close> here.
\<close>

fun flip_walk1 :: "nat \<Rightarrow> Halfedge_Mesh \<Rightarrow> HalfedgeRef \<Rightarrow> HalfedgeRef
    \<Rightarrow> HalfedgeRef list \<times> VertexRef list \<times> EdgeRef list
    \<Rightarrow> (HalfedgeRef list \<times> VertexRef list \<times> EdgeRef list) option" where
  "flip_walk1 0 M front hcurrent hve = None"
| "flip_walk1 (Suc k) M front hcurrent (h, v, eR) =
     (if front \<noteq> hcurrent
      then flip_walk1 k M front (next (hedge M hcurrent))
             (h @ [hcurrent], v @ [vertex (hedge M hcurrent)], eR @ [edge (hedge M hcurrent)])
      else Some (h, v, eR))"

text \<open>Second face: vertices and edges are pushed only when \<open>std::find\<close> misses them.\<close>

fun flip_walk2 :: "nat \<Rightarrow> Halfedge_Mesh \<Rightarrow> HalfedgeRef \<Rightarrow> HalfedgeRef
    \<Rightarrow> HalfedgeRef list \<times> VertexRef list \<times> EdgeRef list
    \<Rightarrow> (HalfedgeRef list \<times> VertexRef list \<times> EdgeRef list) option" where
  "flip_walk2 0 M htw hcurrent hve = None"
| "flip_walk2 (Suc k) M htw hcurrent (h, v, eR) =
     (if htw \<noteq> hcurrent
      then flip_walk2 k M htw (next (hedge M hcurrent))
             (h @ [hcurrent], push_unique v (vertex (hedge M hcurrent)),
              push_unique eR (edge (hedge M hcurrent)))
      else Some (h, v, eR))"

type_synonym stmt = "bool \<times> (Halfedge_Mesh \<Rightarrow> Halfedge_Mesh)"

fun run_stmts :: "stmt list \<Rightarrow> Halfedge_Mesh \<Rightarrow> Halfedge_Mesh \<times> bool" where
  "run_stmts [] M = (M, True)"
| "run_stmts ((guard, write) # ss) M =
     (if guard then run_stmts ss (write M) else (M, False))"

definition flip_stmts :: "EdgeRef \<Rightarrow> FaceRef \<Rightarrow> FaceRef \<Rightarrow> nat
    \<Rightarrow> HalfedgeRef list \<Rightarrow> VertexRef list \<Rightarrow> stmt list" where
  "flip_stmts e f0 f1 l1edges h v =
    (let n = length h; m = length v in
     [(0 < n \<and> 2 < n, set_next (h ! 0) (h ! 2)),
      (0 < n \<and> l1edges < m, set_vertex (h ! 0) (v ! l1edges)),
      (0 < n \<and> l1edges < n, set_twin (h ! 0) (h ! l1edges)),
      (0 < n, set_edge (h ! 0) e),
      (0 < n, set_face (h ! 0) f0),
      (l1edges < n \<and> l1edges + 2 < n, set_next (h ! l1edges) (h ! (l1edges + 2))),
      (l1edges < n \<and> 2 < m, set_vertex (h ! l1edges) (v ! 2)),
      (l1edges < n \<and> 0 < n, set_twin (h ! l1edges) (h ! 0)),
      (l1edges < n, set_edge (h ! l1edges) e),
      (l1edges < n, set_face (h ! l1edges) f1),
      (l1edges - 1 < n \<and> l1edges + 1 < n, set_next (h ! (l1edges - 1)) (h ! (l1edges + 1))),
      (l1edges - 1 < n, set_face (h ! (l1edges - 1)) f0),
      (l1edges + 1 < n \<and> 0 < n, set_next (h ! (l1edges + 1)) (h ! 0)),
      (l1edges + 1 < n, set_face (h ! (l1edges + 1)) f0),
      (1 < n, set_next (last h) (h ! 1)),
      (True, set_face (last h) f1),
      (1 < n \<and> l1edges < n, set_next (h ! 1) (h ! l1edges)),
      (1 < n, set_face (h ! 1) f1),
      (0 < m \<and> l1edges + 1 < n, set_v_halfedge (v ! 0) (h ! (l1edges + 1))),
      (1 < m \<and> 1 < n, set_v_halfedge (v ! 1) (h ! 1)),
      (0 < n, set_e_halfedge e (h ! 0)),
      (0 < n, set_f_halfedge f0 (h ! 0)),
      (l1edges < n, set_f_halfedge f1 (h ! l1edges))])"

text \<open>
  The result: \<open>None\<close> when a walk does not end; otherwise the mesh left behind and either
  the exception thrown or the returned \<open>std::optional\<close>.
\<close>

definition flip_edge :: "Halfedge_Mesh \<Rightarrow> EdgeRef
    \<Rightarrow> (Halfedge_Mesh \<times> (exn + EdgeRef option)) option" where
  "flip_edge M e =
    (if on_boundary M e then Some (M, Inr None)
     else
       (let h0 = e_halfedge (edg M e) in
        case flip_walk1 (walk_fuel M) M h0 (next (hedge M h0))
               ([h0], [vertex (hedge M h0)], [e]) of
          None \<Rightarrow> None
        | Some (h1, va, eRa) \<Rightarrow>
            (let l1edges = length h1;
                 htw = twin (hedge M h0)
             in case flip_walk2 (walk_fuel M) M htw (next (hedge M htw))
                       (h1 @ [htw], push_unique va (vertex (hedge M htw)),
                        push_unique eRa (edge (hedge M htw))) of
                  None \<Rightarrow> None
                | Some (h, v, eR) \<Rightarrow>
                    (let f0 = face (hedge M (e_halfedge (edg M e)));
                         f1 = face (hedge M (twin (hedge M (e_halfedge (edg M e)))));
                         (M', completed) = run_stmts (flip_stmts e f0 f1 l1edges h v) M
                     in if completed then Some (M', Inr (Some e))
                        else Some (M', Inl out_of_range)))))"

subsection \<open>\<open>Halfedge_Mesh::erase_edge\<close>\<close>

text \<open>\<open>do { he->_face = f_1; he = he->next(); } while (he != he_1_nxt);\<close>\<close>

fun relabel_face :: "nat \<Rightarrow> Halfedge_Mesh \<Rightarrow> HalfedgeRef \<Rightarrow> FaceRef \<Rightarrow> HalfedgeRef
    \<Rightarrow> Halfedge_Mesh option" where
  "relabel_face 0 M stop f he = None"
| "relabel_face (Suc k) M stop f he =
     (let M' = set_face he f M; he' = next (hedge M' he)
      in if he' \<noteq> stop then relabel_face k M' stop f he' else Some M')"

definition erase_edge :: "Halfedge_Mesh \<Rightarrow> EdgeRef \<Rightarrow> (Halfedge_Mesh \<times> FaceRef option) option" where
  "erase_edge M e =
    (let he_1 = e_halfedge (edg M e); he_2 = twin (hedge M he_1) in
     if he_1 = next (hedge M he_2) \<or> he_2 = next (hedge M he_1) then Some (M, None)
     else
       (let he_1_nxt = next (hedge M he_1); he_2_nxt = next (hedge M he_2);
            v_1 = vertex (hedge M he_1); v_2 = vertex (hedge M he_2);
            f_1 = face (hedge M he_1); f_2 = face (hedge M he_2)
        in if f_1 = f_2 then Some (M, None)
           else
             (case find_prev (walk_fuel M) M he_1 he_1 of
                None \<Rightarrow> None
              | Some he_1_prev \<Rightarrow>
                 (case find_prev (walk_fuel M) M he_2 he_2 of
                    None \<Rightarrow> None
                  | Some he_2_prev \<Rightarrow>
                     (let M1 = set_next he_2_prev he_1_nxt M;
                          M2 = set_next he_1_prev he_2_nxt M1
                      in case relabel_face (walk_fuel M2) M2 he_1_nxt f_1 he_1_nxt of
                           None \<Rightarrow> None
                         | Some M3 \<Rightarrow>
                            (let M4 = set_v_halfedge v_1 he_2_nxt M3;
                                 M5 = set_v_halfedge v_2 he_1_nxt M4;
                                 M6 = set_f_halfedge f_1 he_1_nxt M5;
                                 M7 = set_boundary f_1
                                        (boundary (fac M6 f_1) \<or> boundary (fac M6 f_2)) M6;
                                 M8 = erase_f f_2 (erase_h he_2 (erase_h he_1 (erase_e e M7)))
                             in Some (M8, Some f_1)))))))"

subsection \<open>\<open>Halfedge_Mesh::collapse_edge\<close>\<close>

text \<open>
  The code treats the two sides of the edge by the same lines, once with
  \<open>he_1n, he_1p\<close> and once with \<open>he_2n, he_2p\<close>; \<open>collapse_side\<close> is that block. It
  returns the mesh and the two twins it read (\<open>he_1n_twin\<close>, \<open>he_1p_twin\<close>).
\<close>

definition collapse_side :: "HalfedgeRef \<Rightarrow> HalfedgeRef \<Rightarrow> Halfedge_Mesh
    \<Rightarrow> Halfedge_Mesh \<times> HalfedgeRef \<times> HalfedgeRef" where
  "collapse_side hn hp M =
    (let hn_twin = twin (hedge M hn);
         hp_twin = twin (hedge M hp);
         M1 = set_e_halfedge (edge (hedge M hn)) hn_twin M;
         M2 = set_e_halfedge (edge (hedge M1 hp)) hp_twin M1
     in if next (hedge M2 hn) = hp
        then
          (let M3 = set_twin hn_twin hp_twin M2;
               M4 = set_twin hp_twin hn_twin M3;
               M5 = erase_h hn M4;
               M6 = erase_h hp M5;
               M7 = erase_e (edge (hedge M6 hn)) M6;
               M8 = erase_f (face (hedge M7 hn)) M7;
               M9 = set_edge hn_twin (edge (hedge M8 hp)) M8;
               M10 = set_v_halfedge (vertex (hedge M9 hp)) hn_twin M9
           in (M10, hn_twin, hp_twin))
        else
          (let M3 = set_next hp hn M2;
               M4 = set_f_halfedge (face (hedge M3 hp)) hp M3
           in (M4, hn_twin, hp_twin)))"

text \<open>
  The boundary clean-up at the end: \<open>if (h->_face->boundary && h->_twin->_face->boundary)
  erase_edge(h->_edge);\<close>. The value \<open>erase_edge\<close> returns is dropped.
\<close>

definition collapse_cleanup :: "HalfedgeRef \<Rightarrow> Halfedge_Mesh \<Rightarrow> Halfedge_Mesh option" where
  "collapse_cleanup h M =
    (if boundary (fac M (face (hedge M h))) \<and>
        boundary (fac M (face (hedge M (twin (hedge M h)))))
     then (case erase_edge M (edge (hedge M h)) of
             None \<Rightarrow> None
           | Some (M', r) \<Rightarrow> Some M')
     else Some M)"

definition collapse_edge :: "Halfedge_Mesh \<Rightarrow> EdgeRef
    \<Rightarrow> (Halfedge_Mesh \<times> VertexRef option) option" where
  "collapse_edge M e =
    (let he_1 = e_halfedge (edg M e);
         he_2 = twin (hedge M he_1);
         he_1n = next (hedge M he_1);
         he_2n = next (hedge M he_2);
         v_1 = vertex (hedge M he_1);
         v_2 = vertex (hedge M he_2)
     in case find_prev (walk_fuel M) M he_1 he_1 of
          None \<Rightarrow> None
        | Some he_1p \<Rightarrow>
           (case find_prev (walk_fuel M) M he_2 he_2 of
              None \<Rightarrow> None
            | Some he_2p \<Rightarrow>
               (case neighborhood_halfedges M v_2 of
                  None \<Rightarrow> None
                | Some v_2_nhe \<Rightarrow>
                   (let Ma = fold (\<lambda>he. set_vertex he v_1) v_2_nhe M;
                        (Mb, he_1n_twin, he_1p_twin) = collapse_side he_1n he_1p Ma;
                        (Mc, he_2n_twin, he_2p_twin) = collapse_side he_2n he_2p Mb;
                        Md = set_v_halfedge v_1 he_2p_twin Mc;
                        Me = set_pos v_1
                               (smul (1 / 2) (vadd (pos (vert Md v_1)) (pos (vert Md v_2)))) Md;
                        Mf = erase_h he_1 Me;
                        Mg = erase_h he_2 Mf;
                        Mh = erase_v v_2 Mg;
                        Mi = erase_e (edge (hedge Mh he_1)) Mh
                    in case collapse_cleanup he_1n_twin Mi of
                         None \<Rightarrow> None
                       | Some Mj \<Rightarrow>
                          (case collapse_cleanup he_2n_twin Mj of
                             None \<Rightarrow> None
                           | Some Mk \<Rightarrow> Some (Mk, Some v_1))))))"

subsection \<open>\<open>edge_collapsable\<close>\<close>

text \<open>
  \<open>Vertex::neighborhood_map\<close> (a map from each neighbouring vertex to a halfedge) is a
  helper of the mesh class whose body is not among the sources; it is a parameter
  \<open>nbm\<close> of the model, returning the map as a list of entries. The loop over the entries
  of \<open>m_1\<close> answers \<open>false\<close> at the first entry that fails a test.
\<close>

fun collapsable_entries :: "Halfedge_Mesh \<Rightarrow> HalfedgeRef \<Rightarrow> HalfedgeRef
    \<Rightarrow> (VertexRef \<times> HalfedgeRef) list \<Rightarrow> (VertexRef \<times> HalfedgeRef) list \<Rightarrow> bool" where
  "collapsable_entries M he_1 he_2 m_2 [] = True"
| "collapsable_entries M he_1 he_2 m_2 ((v_3, he_13) # rest) =
     (case map_of m_2 v_3 of
        None \<Rightarrow> collapsable_entries M he_1 he_2 m_2 rest
      | Some he_23 \<Rightarrow>
         (let v_123 = (next (hedge M (twin (hedge M he_13))) = he_1 \<and>
                       next (hedge M he_1) = he_23);
              v_321 = (next (hedge M (twin (hedge M he_23))) = he_2 \<and>
                       next (hedge M he_2) = he_13)
          in if \<not> v_123 \<and> \<not> v_321 then False
             else if next (hedge M (twin (hedge M (next (hedge M he_13))))) = twin (hedge M he_23) \<or>
                     next (hedge M (twin (hedge M (next (hedge M he_23))))) = twin (hedge M he_13)
             then False
             else if face (hedge M (twin (hedge M he_13))) = face (hedge M he_23) \<and>
                     face (hedge M (twin (hedge M he_23))) = face (hedge M he_13)
             then False
             else collapsable_entries M he_1 he_2 m_2 rest))"

definition edge_collapsable ::
    "(Halfedge_Mesh \<Rightarrow> VertexRef \<Rightarrow> (VertexRef \<times> HalfedgeRef) list)
     \<Rightarrow> Halfedge_Mesh \<Rightarrow> EdgeRef \<Rightarrow> bool" where
  "edge_collapsable nbm M e =
    (let he_1 = e_halfedge (edg M e);
         he_2 = twin (hedge M he_1);
         v_1 = vertex (hedge M he_1);
         v_2 = vertex (hedge M he_2)
     in if vertex (hedge M he_1) = vertex (hedge M (next (hedge M he_1))) then False
        else if next (hedge M (next (hedge M he_1))) = he_1 \<or>
                next (hedge M (next (hedge M he_2))) = he_2 then False
        else if next (hedge M (twin (hedge M (next (hedge M he_1))))) = twin (hedge M he_1)
          then False
        else if next (hedge M (twin (hedge M (next (hedge M he_2))))) = twin (hedge M he_2)
          then False
        else collapsable_entries M he_1 he_2 (nbm M v_2) (nbm M v_1))"

subsection \<open>Quadric simplification: \<open>Edge_Record\<close> and the target of \<open>simplify\<close>\<close>

record Edge_Record =
  rec_edge :: EdgeRef
  optimal :: Vec3
  cost :: real

definition invertible_threshold :: real where
  "invertible_threshold = 1 / 1000000"

text \<open>
  Modelled from the spec: \<open>Edge::length\<close> belongs to the mesh class; it is the distance
  between the two endpoints of the edge.
\<close>

definition edge_length :: "Halfedge_Mesh \<Rightarrow> EdgeRef \<Rightarrow> real" where
  "edge_length M e =
     vnorm (vsub (pos (vert M (vertex (hedge M (e_halfedge (edg M e))))))
                 (pos (vert M (vertex (hedge M (twin (hedge M (e_halfedge (edg M e)))))))))"

text \<open>
  The constructor of \<open>Edge_Record\<close>. \<open>Mat4::inverse\<close> is declared in the math library
  header and is a parameter \<open>inv4\<close> of the model; \<open>vertex_quadrics\<close> is the map the
  constructor receives, read at the two endpoints.
\<close>

definition Edge_Record_new :: "(Mat4 \<Rightarrow> Mat4) \<Rightarrow> (VertexRef \<Rightarrow> Mat4) \<Rightarrow> Halfedge_Mesh
    \<Rightarrow> EdgeRef \<Rightarrow> Edge_Record" where
  "Edge_Record_new inv4 vertex_quadrics M e =
    (let he = e_halfedge (edg M e);
         v_1 = vertex (hedge M he);
         v_2 = vertex (hedge M (twin (hedge M he)));
         edge_quadric = madd (vertex_quadrics v_1) (vertex_quadrics v_2);
         A = edge_quadric;
         b = Vec3 (wx (col3 A)) (wy (col3 A)) (wz (col3 A));
         A = Mat4 (Vec4 (wx (col0 A)) (wy (col0 A)) (wz (col0 A)) 0)
                  (Vec4 (wx (col1 A)) (wy (col1 A)) (wz (col1 A)) 0)
                  (Vec4 (wx (col2 A)) (wy (col2 A)) (wz (col2 A)) 0)
                  (Vec4 0 0 0 1)
     in if det A > invertible_threshold * edge_length M e ^ 3
        then
          (let opt = smul (- 1) (mat_vec3 (inv4 A) b);
               opt4 = Vec4_of opt 1
           in \<lparr>rec_edge = e, optimal = opt,
               cost = dot4 opt4 (mat_vec4 edge_quadric opt4)\<rparr>)
        else
          (let p1 = pos (vert M v_1);
               p2 = pos (vert M v_2);
               cost_1 = dot4 (Vec4_of p1 1) (mat_vec4 edge_quadric (Vec4_of p1 1));
               cost_2 = dot4 (Vec4_of p2 1) (mat_vec4 edge_quadric (Vec4_of p2 1));
               mid = smul (1 / 2) (vadd p1 p2);
               cost_mid = dot4 (Vec4_of mid 1) (mat_vec4 edge_quadric (Vec4_of mid 1));
               a = 2 * (cost_2 - 2 * cost_mid + cost_1);
               b = cost_2 - cost_1 - a;
               c = cost_1;
               t = (if b = 0 then 1 / 2 else - a / (2 * b));
               t = (if t < 0 then 0 else t);
               t = (if t > 1 then 1 else t)
           in \<lparr>rec_edge = e,
               optimal = vadd (smul (1 - t) p1) (smul t p2),
               cost = a * t * t + b * t + c\<rparr>))"

text \<open>
  The quadratic through the three samples, as the specification words the fallback:
  \<open>c(t) = a t\<^sup>2 + b t + c\<close> with \<open>c(0) = cost_1\<close>, \<open>c(1/2) = cost_mid\<close>, \<open>c(1) = cost_2\<close>,
  and its minimiser on \<open>[0, 1]\<close> for \<open>a > 0\<close>.
\<close>

definition fit_a :: "real \<Rightarrow> real \<Rightarrow> real \<Rightarrow> real" where
  "fit_a cost_1 cost_mid cost_2 = 2 * (cost_2 - 2 * cost_mid + cost_1)"

definition fit_b :: "real \<Rightarrow> real \<Rightarrow> real \<Rightarrow> real" where
  "fit_b cost_1 cost_mid cost_2 = cost_2 - cost_1 - fit_a cost_1 cost_mid cost_2"

definition clamp01 :: "real \<Rightarrow> real" where
  "clamp01 t = (if t < 0 then 0 else if t > 1 then 1 else t)"

definition spec_fallback_t :: "real \<Rightarrow> real \<Rightarrow> real \<Rightarrow> real" where
  "spec_fallback_t cost_1 cost_mid cost_2 =
     clamp01 (- fit_b cost_1 cost_mid cost_2 / (2 * fit_a cost_1 cost_mid cost_2))"





subsection \<open>The square of the specification's scenarios\<close>

text \<open>
  The unit square \<open>A(0,0,0)\<close>, \<open>B(1,0,0)\<close>, \<open>C(1,1,0)\<close>, \<open>D(0,1,0)\<close> cut by the diagonal
  \<open>BD\<close> into the triangles \<open>ABD\<close> (face 0) and \<open>BCD\<close> (face 1), with the boundary face 2
  around it. Vertices \<open>A, B, C, D\<close> are 0, 1, 2, 3; edges \<open>AB, BD, DA, BC, CD\<close> are
  0, 1, 2, 3, 4; halfedges 0, 1, 2 run \<open>A\<rightarrow>B\<rightarrow>D\<rightarrow>A\<close>, halfedges 3, 4, 5 run
  \<open>B\<rightarrow>C\<rightarrow>D\<rightarrow>B\<close>, and halfedges 6, 7, 8, 9 run \<open>B\<rightarrow>A\<rightarrow>D\<rightarrow>C\<rightarrow>B\<close> around the hole.
\<close>

definition mk_halfedge :: "HalfedgeRef \<Rightarrow> HalfedgeRef \<Rightarrow> VertexRef \<Rightarrow> EdgeRef \<Rightarrow> FaceRef
    \<Rightarrow> Halfedge" where
  "mk_halfedge t n v e f = \<lparr>twin = t, next = n, vertex = v, edge = e, face = f\<rparr>"

definition square_hedge :: "HalfedgeRef \<Rightarrow> Halfedge" where
  "square_hedge =
     (\<lambda>h. mk_halfedge 0 0 0 0 0)
       (0 := mk_halfedge 6 1 0 0 0,
        1 := mk_halfedge 5 2 1 1 0,
        2 := mk_halfedge 7 0 3 2 0,
        3 := mk_halfedge 9 4 1 3 1,
        4 := mk_halfedge 8 5 2 4 1,
        5 := mk_halfedge 1 3 3 1 1,
        6 := mk_halfedge 0 7 1 0 2,
        7 := mk_halfedge 2 8 0 2 2,
        8 := mk_halfedge 4 9 3 4 2,
        9 := mk_halfedge 3 6 2 3 2)"

definition square_vert :: "VertexRef \<Rightarrow> Vertex" where
  "square_vert =
     (\<lambda>v. \<lparr>v_halfedge = 0, pos = Vec3 0 0 0\<rparr>)
       (0 := \<lparr>v_halfedge = 0, pos = Vec3 0 0 0\<rparr>,
        1 := \<lparr>v_halfedge = 1, pos = Vec3 1 0 0\<rparr>,
        2 := \<lparr>v_halfedge = 4, pos = Vec3 1 1 0\<rparr>,
        3 := \<lparr>v_halfedge = 2, pos = Vec3 0 1 0\<rparr>)"

definition square_edg :: "EdgeRef \<Rightarrow> Edge" where
  "square_edg e = \<lparr>e_halfedge = e\<rparr>"

definition square_fac :: "FaceRef \<Rightarrow> Face" where
  "square_fac =
     (\<lambda>f. \<lparr>f_halfedge = 0, boundary = False\<rparr>)
       (1 := \<lparr>f_halfedge = 3, boundary = False\<rparr>,
        2 := \<lparr>f_halfedge = 6, boundary = True\<rparr>)"

definition square :: Halfedge_Mesh where
  "square =
     \<lparr>vertices = [0, 1, 2, 3], edges = [0, 1, 2, 3, 4], faces = [0, 1, 2],
      halfedges = [0, 1, 2, 3, 4, 5, 6, 7, 8, 9],
      vert = square_vert, edg = square_edg, fac = square_fac, hedge = square_hedge,
      verased = {}, eerased = {}, ferased = {}, herased = {}\<rparr>"

subsection \<open>A closed mesh of two triangles\<close>

text \<open>
  Two triangles glued along all three of their edges (a "pillow"): the vertices
  \<open>a(0,0,0)\<close>, \<open>b(1,0,0)\<close>, \<open>c(0,1,0)\<close> are 0, 1, 2; the edges \<open>ab, bc, ca\<close> are 0, 1, 2;
  halfedges 0, 1, 2 run \<open>a\<rightarrow>b\<rightarrow>c\<rightarrow>a\<close> around face 0 and halfedges 3, 4, 5 run
  \<open>b\<rightarrow>a\<rightarrow>c\<rightarrow>b\<close> around face 1. The mesh has no boundary face.
\<close>

definition pillow_hedge :: "HalfedgeRef \<Rightarrow> Halfedge" where
  "pillow_hedge =
     (\<lambda>h. mk_halfedge 0 0 0 0 0)
       (0 := mk_halfedge 3 1 0 0 0,
        1 := mk_halfedge 5 2 1 1 0,
        2 := mk_halfedge 4 0 2 2 0,
        3 := mk_halfedge 0 4 1 0 1,
        4 := mk_halfedge 2 5 0 2 1,
        5 := mk_halfedge 1 3 2 1 1)"

definition pillow_vert :: "VertexRef \<Rightarrow> Vertex" where
  "pillow_vert =
     (\<lambda>v. \<lparr>v_halfedge = 0, pos = Vec3 0 0 0\<rparr>)
       (1 := \<lparr>v_halfedge = 1, pos = Vec3 1 0 0\<rparr>,
        2 := \<lparr>v_halfedge = 2, pos = Vec3 0 1 0\<rparr>)"

definition pillow_fac :: "FaceRef \<Rightarrow> Face" where
  "pillow_fac =
     (\<lambda>f. \<lparr>f_halfedge = 0, boundary = False\<rparr>)
       (1 := \<lparr>f_halfedge = 3, boundary = False\<rparr>)"

definition pillow :: Halfedge_Mesh where
  "pillow =
     \<lparr>vertices = [0, 1, 2], edges = [0, 1, 2], faces = [0, 1],
      halfedges = [0, 1, 2, 3, 4, 5],
      vert = pillow_vert, edg = square_edg, fac = pillow_fac, hedge = pillow_hedge,
      verased = {}, eerased = {}, ferased = {}, herased = {}\<rparr>"

text \<open>
  The invariants 1, 2 and 4 of the specification (3.1), and the part of 3 that one step
  can see, for every halfedge of the mesh: \<open>h.twin.twin = h\<close>, \<open>h.twin \<noteq> h\<close>,
  \<open>h.twin.vertex = h.next.vertex\<close>, \<open>h.edge = h.twin.edge\<close>, \<open>h.next.face = h.face\<close>.
\<close>

definition halfedge_invariants :: "Halfedge_Mesh \<Rightarrow> bool" where
  "halfedge_invariants M =
     list_all (\<lambda>h. twin (hedge M (twin (hedge M h))) = h \<and> twin (hedge M h) \<noteq> h \<and>
                   vertex (hedge M (twin (hedge M h))) = vertex (hedge M (next (hedge M h))) \<and>
                   edge (hedge M h) = edge (hedge M (twin (hedge M h))) \<and>
                   face (hedge M (next (hedge M h))) = face (hedge M h))
       (halfedges M)"

subsection \<open>Frames of the mesh operations\<close>

text \<open>
  Two meshes have the same entities when their four element lists and their four sets
  of erased elements agree; \<open>erased_grow\<close> says that no erasure mark was taken back.
\<close>

definition same_entities :: "Halfedge_Mesh \<Rightarrow> Halfedge_Mesh \<Rightarrow> bool" where
  "same_entities M M' \<longleftrightarrow>
     vertices M' = vertices M \<and> edges M' = edges M \<and> faces M' = faces M \<and>
     halfedges M' = halfedges M \<and> verased M' = verased M \<and> eerased M' = eerased M \<and>
     ferased M' = ferased M \<and> herased M' = herased M"

definition erased_grow :: "Halfedge_Mesh \<Rightarrow> Halfedge_Mesh \<Rightarrow> bool" where
  "erased_grow M M' \<longleftrightarrow>
     verased M \<subseteq> verased M' \<and> eerased M \<subseteq> eerased M' \<and>
     ferased M \<subseteq> ferased M' \<and> herased M \<subseteq> herased M'"

subsection \<open>Two vertex quadrics for the edge \<open>AB\<close> of the square\<close>

text \<open>
  \<open>quadric_A\<close> is three times the quadric of the plane \<open>x = 0\<close> through \<open>A\<close>, and
  \<open>quadric_B\<close> the quadric of the plane \<open>x = 1\<close> through \<open>B\<close> (the outer product of
  \<open>(1, 0, 0, -1)\<close> with itself). Along \<open>AB\<close> their sum costs \<open>3 t\<^sup>2 + (t - 1)\<^sup>2\<close>.
\<close>

definition quadric_A :: Mat4 where
  "quadric_A = Mat4 (Vec4 3 0 0 0) (Vec4 0 0 0 0) (Vec4 0 0 0 0) (Vec4 0 0 0 0)"

definition quadric_B :: Mat4 where
  "quadric_B = Mat4 (Vec4 1 0 0 (- 1)) (Vec4 0 0 0 0) (Vec4 0 0 0 0) (Vec4 (- 1) 0 0 1)"

definition square_quadrics :: "VertexRef \<Rightarrow> Mat4" where
  "square_quadrics = (\<lambda>v. Mat4_I)(0 := quadric_A, 1 := quadric_B)"

section \<open>Bounding boxes (\<open>bbox.cpp\<close>)\<close>

text \<open>
  Modelled from the spec: the box class itself (its default constructor, \<open>enclose\<close>,
  \<open>surface_area\<close>) is declared in the math library header, not among the sources. By
  the specification a box has a min and a max corner and supports \<open>enclose(point|box)\<close>
  and \<open>surface_area()\<close>. A fresh box is empty: its min corner is \<open>FLT_MAX\<close> and its max
  corner \<open>-FLT_MAX\<close> on every axis, so that enclosing the first point gives that point;
  the surface area of an empty box is 0.
\<close>

record BBox =
  bmin :: Vec3
  bmax :: Vec3

definition FLT_MAX :: real where
  "FLT_MAX = 340282346638528859811704183484516925440"

definition BBox_new :: BBox where
  "BBox_new = \<lparr>bmin = Vec3 FLT_MAX FLT_MAX FLT_MAX,
               bmax = Vec3 (- FLT_MAX) (- FLT_MAX) (- FLT_MAX)\<rparr>"

definition hmin :: "Vec3 \<Rightarrow> Vec3 \<Rightarrow> Vec3" where
  "hmin a b = Vec3 (min (vx a) (vx b)) (min (vy a) (vy b)) (min (vz a) (vz b))"

definition hmax :: "Vec3 \<Rightarrow> Vec3 \<Rightarrow> Vec3" where
  "hmax a b = Vec3 (max (vx a) (vx b)) (max (vy a) (vy b)) (max (vz a) (vz b))"

definition enclose_point :: "BBox \<Rightarrow> Vec3 \<Rightarrow> BBox" where
  "enclose_point box p = \<lparr>bmin = hmin (bmin box) p, bmax = hmax (bmax box) p\<rparr>"

definition enclose :: "BBox \<Rightarrow> BBox \<Rightarrow> BBox" where
  "enclose box b = \<lparr>bmin = hmin (bmin box) (bmin b), bmax = hmax (bmax box) (bmax b)\<rparr>"

definition box_empty :: "BBox \<Rightarrow> bool" where
  "box_empty box \<longleftrightarrow>
     vx (bmin box) > vx (bmax box) \<or> vy (bmin box) > vy (bmax box) \<or>
     vz (bmin box) > vz (bmax box)"

definition surface_area :: "BBox \<Rightarrow> real" where
  "surface_area box =
    (if box_empty box then 0
     else (let extent = vsub (bmax box) (bmin box)
           in 2 * (vx extent * vz extent + vx extent * vy extent + vy extent * vz extent)))"

text \<open>\<open>v[axis]\<close> for \<open>axis = 0, 1, 2\<close>.\<close>

definition vidx :: "Vec3 \<Rightarrow> nat \<Rightarrow> real" where
  "vidx v axis = (if axis = 0 then vx v else if axis = 1 then vy v else vz v)"

text \<open>
  \<open>BBox::hit\<close> of \<open>bbox.cpp\<close>. It returns whether the ray meets the box inside
  \<open>times\<close> (here \<open>tms\<close>) and the ray's own interval, and the new \<open>times\<close>; a
  \<open>return false\<close> from an axis along which the ray does not move leaves \<open>times\<close> as it
  was.
\<close>

definition slab :: "real \<Rightarrow> real \<Rightarrow> real \<Rightarrow> real \<Rightarrow> Vec2 \<Rightarrow> (real \<times> real) option" where
  "slab lo hi p d tms =
    (if d = 0
     then (if lo \<le> p \<and> p \<le> hi then Some (ux tms, uy tms) else None)
     else (let tmin = (lo - p) / d; tmax = (hi - p) / d
           in if tmin > tmax then Some (tmax, tmin) else Some (tmin, tmax)))"

definition BBox_hit :: "BBox \<Rightarrow> Ray \<Rightarrow> Vec2 \<Rightarrow> bool \<times> Vec2" where
  "BBox_hit box ray tms =
    (case slab (vx (bmin box)) (vx (bmax box)) (vx (point ray)) (vx (dir ray)) tms of
       None \<Rightarrow> (False, tms)
     | Some (xmin, xmax) \<Rightarrow>
      (case slab (vy (bmin box)) (vy (bmax box)) (vy (point ray)) (vy (dir ray)) tms of
         None \<Rightarrow> (False, tms)
       | Some (ymin, ymax) \<Rightarrow>
        (case slab (vz (bmin box)) (vz (bmax box)) (vz (point ray)) (vz (dir ray)) tms of
           None \<Rightarrow> (False, tms)
         | Some (zmin, zmax) \<Rightarrow>
            (let amin = max (max (max (ux (dist_bounds ray)) (ux tms)) xmin) (max ymin zmin);
                 amax = min (min (min (uy (dist_bounds ray)) (uy tms)) xmax) (min ymax zmax)
             in (amin \<le> amax, Vec2 amin amax)))))"

definition Sphere_bbox :: "Sphere \<Rightarrow> BBox" where
  "Sphere_bbox sph =
     enclose_point
       (enclose_point BBox_new (Vec3 (- radius sph) (- radius sph) (- radius sph)))
       (Vec3 (radius sph) (radius sph) (radius sph))"

text \<open>
  \<open>Triangle::bbox\<close> of \<open>tri_mesh.cpp\<close>: a fresh box whose min corner is set to the
  componentwise minimum of the three vertices; its max corner is never written.
\<close>

definition Triangle_bbox :: "Triangle \<Rightarrow> BBox" where
  "Triangle_bbox tri =
     BBox_new\<lparr>bmin := hmin (hmin (vert_position (vertex_list tri (v0 tri)))
                                (vert_position (vertex_list tri (v1 tri))))
                          (vert_position (vertex_list tri (v2 tri)))\<rparr>"

section \<open>The bounding volume hierarchy (\<open>bvh.inl\<close>)\<close>

text \<open>
  Modelled from the spec: \<open>Trace::min\<close> belongs to the trace class, not to the sources;
  it "keeps the hit with the smaller distance, or either if only one hit", and a fresh
  trace is a miss.
\<close>

definition Trace_new :: Trace where
  "Trace_new = \<lparr>origin = Vec3 0 0 0, hit = False, distance = 0,
                 position = Vec3 0 0 0, normal = Vec3 0 0 0\<rparr>"

definition Trace_min :: "Trace \<Rightarrow> Trace \<Rightarrow> Trace" where
  "Trace_min a b =
    (if hit a \<and> hit b then (if distance a < distance b then a else b)
     else if hit a then a
     else if hit b then b
     else Trace_new)"

text \<open>
  The hierarchy is a template over its primitive type, which must offer \<open>bbox()\<close> and
  \<open>hit(ray)\<close>; the model takes the two as parameters \<open>bbox_of\<close> and \<open>hit_of\<close>. The vector
  of nodes is its size and its content by index.
\<close>

record Node =
  n_bbox :: BBox
  n_start :: nat
  n_size :: nat
  n_l :: nat
  n_r :: nat

record 'p BVH =
  nodes :: "nat \<Rightarrow> Node"
  n_nodes :: nat
  primitives :: "'p list"
  root_idx :: nat

definition N_BINS :: nat where
  "N_BINS = 16"

definition new_node :: "'p BVH \<Rightarrow> 'p BVH \<times> nat" where
  "new_node bvh =
     (bvh\<lparr>nodes := (nodes bvh)(n_nodes bvh :=
              \<lparr>n_bbox = BBox_new, n_start = 0, n_size = 0, n_l = 0, n_r = 0\<rparr>),
           n_nodes := n_nodes bvh + 1\<rparr>,
      n_nodes bvh)"

text \<open>
  \<open>int bin = ((b.max[axis] + b.min[axis]) / 2 - min) * N_BINS / (max - min)\<close>, clamped to
  \<open>0 .. N_BINS - 1\<close>. The conversion to \<open>int\<close> truncates towards zero. When the node's box
  is flat on the axis the code divides by zero and the conversion is undefined; here
  \<open>x / 0 = 0\<close> puts such primitives in bin 0.
\<close>

definition trunc :: "real \<Rightarrow> int" where
  "trunc x = (if x < 0 then \<lceil>x\<rceil> else \<lfloor>x\<rfloor>)"

definition bin_of :: "real \<Rightarrow> real \<Rightarrow> nat \<Rightarrow> BBox \<Rightarrow> nat" where
  "bin_of lo hi axis b =
    (let bin = trunc (((vidx (bmax b) axis + vidx (bmin b) axis) / 2 - lo) * real N_BINS
                       / (hi - lo))
     in if bin < 0 then 0 else if bin \<ge> int N_BINS then N_BINS - 1 else nat bin)"

text \<open>The loop over the primitives of the node: bin of each, count and box per bin.\<close>

fun fill_bins :: "real \<Rightarrow> real \<Rightarrow> nat \<Rightarrow> BBox list
    \<Rightarrow> nat list \<times> nat list \<times> BBox list \<Rightarrow> nat list \<times> nat list \<times> BBox list" where
  "fill_bins lo hi axis [] acc = acc"
| "fill_bins lo hi axis (b # bs) (bin_cnt, cnt_bin, bbox_bin) =
     (let bin = bin_of lo hi axis b
      in fill_bins lo hi axis bs
           (bin_cnt @ [bin], cnt_bin[bin := cnt_bin ! bin + 1],
            bbox_bin[bin := enclose (bbox_bin ! bin) b]))"

text \<open>
  The sweeps: \<open>left_bbox[i]\<close> encloses the first \<open>i\<close> bins and \<open>left_sum[i]\<close> counts them;
  the right sweeps run over the bins from the last one.
\<close>

fun sweep_bbox :: "BBox \<Rightarrow> BBox list \<Rightarrow> BBox list" where
  "sweep_bbox acc [] = [acc]"
| "sweep_bbox acc (b # bs) = acc # sweep_bbox (enclose acc b) bs"

fun sweep_sum :: "nat \<Rightarrow> nat list \<Rightarrow> nat list" where
  "sweep_sum acc [] = [acc]"
| "sweep_sum acc (c # cs) = acc # sweep_sum (acc + c) cs"

record Split =
  min_cost :: real
  best_axis :: int
  best_split :: int
  best_bin_cnt :: "nat list"
  best_left :: BBox
  best_right :: BBox

text \<open>One split position \<open>i\<close> of one axis: the body of \<open>for (i = 1; i < N_BINS; ++i)\<close>.\<close>

definition try_split :: "nat \<Rightarrow> nat list \<Rightarrow> BBox list \<Rightarrow> BBox list \<Rightarrow> nat list \<Rightarrow> nat list
    \<Rightarrow> nat \<Rightarrow> Split \<Rightarrow> Split" where
  "try_split axis bin_cnt left_bbox right_bbox left_sum right_sum i best =
    (let cost = surface_area (left_bbox ! i) * real (left_sum ! i) +
                surface_area (right_bbox ! (N_BINS - i)) * real (right_sum ! (N_BINS - i))
     in if cost < min_cost best
        then \<lparr>min_cost = cost,
              best_axis = int axis,
              best_split = int i,
              best_bin_cnt = (if best_axis best \<noteq> int axis then bin_cnt
                              else best_bin_cnt best),
              best_left = left_bbox ! i,
              best_right = right_bbox ! (N_BINS - i)\<rparr>
        else best)"

definition try_axis :: "BBox \<Rightarrow> BBox list \<Rightarrow> nat \<Rightarrow> Split \<Rightarrow> Split" where
  "try_axis box bs axis best =
    (let lo = vidx (bmin box) axis;
         hi = vidx (bmax box) axis;
         (bin_cnt, cnt_bin, bbox_bin) =
            fill_bins lo hi axis bs ([], replicate N_BINS 0, replicate N_BINS BBox_new);
         left_bbox = sweep_bbox BBox_new bbox_bin;
         right_bbox = sweep_bbox BBox_new (rev bbox_bin);
         left_sum = sweep_sum 0 cnt_bin;
         right_sum = sweep_sum 0 (rev cnt_bin)
     in fold (try_split axis bin_cnt left_bbox right_bbox left_sum right_sum)
          [1 ..< N_BINS] best)"

definition Split_new :: Split where
  "Split_new = \<lparr>min_cost = FLT_MAX, best_axis = - 1, best_split = - 1, best_bin_cnt = [],
                best_left = BBox_new, best_right = BBox_new\<rparr>"

definition find_split :: "BBox \<Rightarrow> BBox list \<Rightarrow> Split" where
  "find_split box bs = fold (try_axis box bs) [0 ..< 3] Split_new"

text \<open>
  The primitives of a node are \<open>primitives[start .. start + size)\<close>. The partition sends
  primitive \<open>i\<close> of the node to the left when \<open>best_bin_cnt[i] <= best_split\<close> and writes
  the left ones, then the right ones, back over the node's range.
\<close>

definition node_prims :: "'p BVH \<Rightarrow> Node \<Rightarrow> 'p list" where
  "node_prims bvh n = take (n_size n) (drop (n_start n) (primitives bvh))"

definition goes_left :: "Split \<Rightarrow> 'p \<times> nat \<Rightarrow> bool" where
  "goes_left best pb \<longleftrightarrow> int (snd pb) \<le> best_split best"

definition set_node :: "nat \<Rightarrow> Node \<Rightarrow> 'p BVH \<Rightarrow> 'p BVH" where
  "set_node addr n bvh = bvh\<lparr>nodes := (nodes bvh)(addr := n)\<rparr>"

text \<open>
  \<open>build_subtree\<close>. If no split ever costs less than \<open>FLT_MAX\<close>, \<open>best_bin_cnt\<close> stays empty
  and the partition loop reads it out of range; that run is \<open>None\<close>. The writes
  \<open>n.l = n.r = 0\<close> go to a copy of the node and change nothing.
\<close>

function build_subtree :: "('p \<Rightarrow> BBox) \<Rightarrow> 'p BVH \<Rightarrow> nat \<Rightarrow> nat \<Rightarrow> 'p BVH option" where
  "build_subtree bbox_of bvh node_addr max_leaf_size =
    (let n = nodes bvh node_addr in
     if n_size n \<le> max_leaf_size then Some bvh
     else
       (let best = find_split (n_bbox n) (map bbox_of (node_prims bvh n)) in
        if length (best_bin_cnt best) < length (node_prims bvh n) then None
        else
          (let tagged = zip (node_prims bvh n) (best_bin_cnt best);
               left = map fst (filter (goes_left best) tagged);
               right = map fst (filter (\<lambda>pb. \<not> goes_left best pb) tagged);
               bvh1 = bvh\<lparr>primitives :=
                        take (n_start n) (primitives bvh) @ left @ right @
                        drop (n_start n + length (node_prims bvh n)) (primitives bvh)\<rparr>
           in if length left = 0 \<or> length right = 0 then Some bvh1
              else
                (let (bvh2, node_addr_l) = new_node bvh1;
                     (bvh3, node_addr_r) = new_node bvh2;
                     bvh4 = set_node node_addr
                              ((nodes bvh3 node_addr)\<lparr>n_l := node_addr_l, n_r := node_addr_r\<rparr>)
                              bvh3;
                     bvh5 = set_node node_addr_l
                              ((nodes bvh4 node_addr_l)\<lparr>n_bbox := best_left best,
                                 n_start := n_start n, n_size := length left\<rparr>) bvh4
                 in case build_subtree bbox_of bvh5 node_addr_l max_leaf_size of
                      None \<Rightarrow> None
                    | Some bvh6 \<Rightarrow>
                        build_subtree bbox_of
                          (set_node node_addr_r
                             ((nodes bvh6 node_addr_r)\<lparr>n_bbox := best_right best,
                                n_start := n_start n + length left,
                                n_size := length right\<rparr>) bvh6)
                          node_addr_r max_leaf_size))))"
  by pat_completeness auto
termination
proof (relation "measure (\<lambda>(bbox_of, bvh, node_addr, max_leaf_size). n_size (nodes bvh node_addr))",
    goal_cases)
  case 1
  show ?case by simp
next
  case (2 bbox_of bvh node_addr max_leaf_size n best tagged left right)
  have sum: "length left + length right = length tagged"
    using 2 sum_length_filter_compl [of "goes_left best" tagged] by simp
  have le: "length tagged \<le> n_size n"
    using 2 by (simp add: node_prims_def)
  have nz: "length right \<noteq> 0"
    using 2 by simp
  have lt: "length left < n_size n"
    using sum le nz by arith
  show ?case
    using lt 2 by (simp add: new_node_def set_node_def)
next
  case (3 bbox_of bvh node_addr max_leaf_size n best tagged left right)
  have sum: "length left + length right = length tagged"
    using 3 sum_length_filter_compl [of "goes_left best" tagged] by simp
  have le: "length tagged \<le> n_size n"
    using 3 by (simp add: node_prims_def)
  have nz: "length left \<noteq> 0"
    using 3 by simp
  have lt: "length right < n_size n"
    using sum le nz by arith
  show ?case
    using lt 3(1) by (simp add: set_node_def)
qed

text \<open>
  \<open>build\<close> clears the nodes, takes the primitives and, unless there are none, makes the
  root over all of them and splits it. \<open>root_idx\<close> is a member of the hierarchy, and an
  empty build leaves it as it was.
\<close>

definition build :: "('p \<Rightarrow> BBox) \<Rightarrow> 'p BVH \<Rightarrow> 'p list \<Rightarrow> nat \<Rightarrow> 'p BVH option" where
  "build bbox_of bvh prims max_leaf_size =
    (let bvh0 = bvh\<lparr>nodes := (\<lambda>i. \<lparr>n_bbox = BBox_new, n_start = 0, n_size = 0,
                                      n_l = 0, n_r = 0\<rparr>),
                    n_nodes := 0, primitives := prims\<rparr>
     in if prims = [] then Some bvh0
        else
          (let bb = fold (\<lambda>p box. enclose box (bbox_of p)) prims BBox_new;
               (bvh1, root_node_addr) = new_node bvh0;
               bvh2 = bvh1\<lparr>root_idx := root_node_addr\<rparr>;
               bvh3 = set_node root_node_addr
                        ((nodes bvh2 root_node_addr)\<lparr>n_bbox := bb, n_start := 0,
                           n_size := length prims\<rparr>) bvh2
           in build_subtree bbox_of bvh3 root_node_addr max_leaf_size))"

definition BVH_new :: "'p BVH" where
  "BVH_new = \<lparr>nodes = (\<lambda>i. \<lparr>n_bbox = BBox_new, n_start = 0, n_size = 0, n_l = 0, n_r = 0\<rparr>),
              n_nodes = 0, primitives = [], root_idx = 0\<rparr>"

text \<open>
  The loop of a leaf: \<open>hit\<close> each primitive in turn on the one ray, keep \<open>Trace::min\<close>.
  The same loop over all the primitives is the linear scan the hierarchy replaces.
\<close>

fun hit_prims :: "('p \<Rightarrow> Ray \<Rightarrow> Trace \<times> Ray) \<Rightarrow> 'p list \<Rightarrow> Ray \<Rightarrow> Trace \<Rightarrow> Ray \<times> Trace" where
  "hit_prims hit_of [] ray closest = (ray, closest)"
| "hit_prims hit_of (prim # ps) ray closest =
     (let (h, ray') = hit_of prim ray
      in hit_prims hit_of ps ray' (Trace_min closest h))"

definition linear_scan :: "('p \<Rightarrow> Ray \<Rightarrow> Trace \<times> Ray) \<Rightarrow> 'p list \<Rightarrow> Ray \<Rightarrow> Trace" where
  "linear_scan hit_of prims ray = snd (hit_prims hit_of prims ray Trace_new)"

text \<open>
  \<open>hit_subtree\<close> recurses along the child indices. In a built tree the children of a
  node come after it, so the depth is below the number of nodes; the recursion gets
  that much fuel, and \<open>None\<close> stands for a descent that does not end. The ray is one
  object for the whole traversal: each primitive's \<open>hit\<close> may tighten it.
\<close>

fun hit_subtree :: "nat \<Rightarrow> ('p \<Rightarrow> Ray \<Rightarrow> Trace \<times> Ray) \<Rightarrow> 'p BVH \<Rightarrow> Ray \<Rightarrow> nat \<Rightarrow> Trace
    \<Rightarrow> (Ray \<times> Trace) option" where
  "hit_subtree 0 hit_of bvh ray node_addr closest = None"
| "hit_subtree (Suc k) hit_of bvh ray node_addr closest =
    (let n = nodes bvh node_addr in
     if \<not> (n_l n \<noteq> 0 \<and> n_r n \<noteq> 0)
     then Some (hit_prims hit_of (node_prims bvh n) ray closest)
     else
       (let (hl, times_l) = BBox_hit (n_bbox (nodes bvh (n_l n))) ray (dist_bounds ray);
            l_intersect = (hl \<and> (\<not> hit closest \<or> ux times_l < distance closest));
            (hr, times_r) = BBox_hit (n_bbox (nodes bvh (n_r n))) ray (dist_bounds ray);
            r_intersect = (hr \<and> (\<not> hit closest \<or> ux times_r < distance closest))
        in if \<not> l_intersect \<and> \<not> r_intersect then Some (ray, closest)
           else
             (case (if \<not> l_intersect then hit_subtree k hit_of bvh ray (n_r n) closest
                    else Some (ray, closest)) of
                None \<Rightarrow> None
              | Some (ray1, closest1) \<Rightarrow>
                 (case (if \<not> r_intersect then hit_subtree k hit_of bvh ray1 (n_l n) closest1
                        else Some (ray1, closest1)) of
                    None \<Rightarrow> None
                  | Some (ray2, closest2) \<Rightarrow>
                     (if ux times_l < ux times_r
                      then
                        (case hit_subtree k hit_of bvh ray2 (n_l n) closest2 of
                           None \<Rightarrow> None
                         | Some (ray3, closest3) \<Rightarrow>
                            (if r_intersect \<and>
                                (\<not> hit closest3 \<or> ux times_r < distance closest3)
                             then hit_subtree k hit_of bvh ray3 (n_r n) closest3
                             else Some (ray3, closest3)))
                      else
                        (case hit_subtree k hit_of bvh ray2 (n_r n) closest2 of
                           None \<Rightarrow> None
                         | Some (ray3, closest3) \<Rightarrow>
                            (if l_intersect \<and>
                                (\<not> hit closest3 \<or> ux times_l < distance closest3)
                             then hit_subtree k hit_of bvh ray3 (n_l n) closest3
                             else Some (ray3, closest3))))))))"

definition BVH_hit :: "('p \<Rightarrow> Ray \<Rightarrow> Trace \<times> Ray) \<Rightarrow> 'p BVH \<Rightarrow> Ray \<Rightarrow> Trace option" where
  "BVH_hit hit_of bvh ray =
    (if n_nodes bvh = 0 then Some Trace_new
     else if fst (BBox_hit (n_bbox (nodes bvh (root_idx bvh))) ray (dist_bounds ray))
     then (case hit_subtree (n_nodes bvh) hit_of bvh ray (root_idx bvh) Trace_new of
             None \<Rightarrow> None
           | Some (ray', closest) \<Rightarrow> Some closest)
     else Some Trace_new)"

subsection \<open>Spheres placed in a scene\<close>

text \<open>
  Modelled from the spec: the tracer builds its hierarchy over scene objects, shapes
  placed by a transform (scenario 4 has unit spheres at random centres); the object
  class is not among the sources. A placed sphere is a sphere of \<open>shapes.cpp\<close> moved to
  a centre: its box is \<open>Sphere::bbox\<close> moved by the centre, and its \<open>hit\<close> is
  \<open>Sphere::hit\<close> on the ray moved into the sphere's frame, with the trace moved back and
  the tightened interval handed on.
\<close>

record Placed_Sphere =
  centre :: Vec3
  shape :: Sphere

definition placed_bbox :: "Placed_Sphere \<Rightarrow> BBox" where
  "placed_bbox p =
     \<lparr>bmin = vadd (bmin (Sphere_bbox (shape p))) (centre p),
      bmax = vadd (bmax (Sphere_bbox (shape p))) (centre p)\<rparr>"

definition placed_hit :: "Placed_Sphere \<Rightarrow> Ray \<Rightarrow> Trace \<times> Ray" where
  "placed_hit p ray =
    (let (tr, ray') = Sphere_hit (shape p) (ray\<lparr>point := vsub (point ray) (centre p)\<rparr>)
     in (if hit tr
         then tr\<lparr>origin := vadd (origin tr) (centre p),
                 position := vadd (position tr) (centre p)\<rparr>
         else tr\<lparr>origin := vadd (origin tr) (centre p)\<rparr>,
         ray\<lparr>dist_bounds := dist_bounds ray'\<rparr>))"

text \<open>
  Three spheres of radius 7 centred at \<open>x = 0, 1, 2\<close> on the \<open>x\<close> axis, and a ray that
  starts at \<open>(7.5, 0, 0)\<close>, inside the second and third sphere and outside the first,
  and runs along \<open>x\<close>.
\<close>

definition three_spheres :: "Placed_Sphere list" where
  "three_spheres =
     [\<lparr>centre = Vec3 0 0 0, shape = \<lparr>radius = 7\<rparr>\<rparr>,
      \<lparr>centre = Vec3 1 0 0, shape = \<lparr>radius = 7\<rparr>\<rparr>,
      \<lparr>centre = Vec3 2 0 0, shape = \<lparr>radius = 7\<rparr>\<rparr>]"

definition probe_ray :: Ray where
  "probe_ray = \<lparr>point = Vec3 (15 / 2) 0 0, dir = Vec3 1 0 0, dist_bounds = Vec2 0 1000\<rparr>"


text \<open>The boxes met in that example span \<open>[lo, hi]\<close> on \<open>x\<close> and \<open>[-7, 7]\<close> on \<open>y\<close> and \<open>z\<close>.\<close>

definition x_box :: "real \<Rightarrow> real \<Rightarrow> BBox" where
  "x_box lo hi = \<lparr>bmin = Vec3 lo (- 7) (- 7), bmax = Vec3 hi 7 7\<rparr>"

text \<open>The triangle and the ray of scenario 6.\<close>

definition flat_tri :: Triangle where
  "flat_tri = scenario_tri (Vec3 0 0 1) (Vec3 0 0 1) (Vec3 0 0 1)"

definition down_ray :: Ray where
  "down_ray = \<lparr>point = Vec3 (1/4) (1/4) 1, dir = Vec3 0 0 (- 1), dist_bounds = Vec2 0 1000\<rparr>"

section \<open>Properties of the triangle intersection\<close>

lemma smul_sel [simp]:
  "vx (smul k a) = k * vx a" "vy (smul k a) = k * vy a" "vz (smul k a) = k * vz a"
  by (simp_all add: smul_def)

lemma code_u: "dot (smul (- 1) (cross s e2)) d = dot s (cross d e2)"
  by (simp add: dot_def cross_def smul_def algebra_simps)

lemma code_v: "dot (cross e1 d) s = dot d (cross s e1)"
  by (simp add: dot_def cross_def algebra_simps)

lemma code_t: "dot (smul (- 1) (cross s e2)) e1 = dot e2 (cross s e1)"
  by (simp add: dot_def cross_def smul_def algebra_simps)

text \<open>
  The code's \<open>uvt\<close> are the standard coordinates, and it reports a hit exactly on a
  denominator above \<open>10\<^sup>-\<^sup>6\<close> with \<open>u > 0\<close>, \<open>v > 0\<close>, \<open>u + v \<le> 1\<close> and \<open>t\<close> strictly inside
  the interval.
\<close>

lemma Triangle_hit_hit_iff:
  "hit (fst (Triangle_hit tri ray)) \<longleftrightarrow>
     1 / 1000000 < mt_d tri ray \<and> 0 < mt_u tri ray \<and> 0 < mt_v tri ray \<and>
     mt_u tri ray + mt_v tri ray \<le> 1 \<and>
     ux (dist_bounds ray) < mt_t tri ray \<and> mt_t tri ray < uy (dist_bounds ray)"
proof -
  have u: "dot (smul (- 1) (cross (mt_s tri ray) (mt_e2 tri))) (dir ray) / mt_d tri ray
             = mt_u tri ray"
    by (simp only: code_u mt_u_def)
  have v: "dot (cross (mt_e1 tri) (dir ray)) (mt_s tri ray) / mt_d tri ray = mt_v tri ray"
    by (simp only: code_v mt_v_def)
  have t: "dot (smul (- 1) (cross (mt_s tri ray) (mt_e2 tri))) (mt_e1 tri) / mt_d tri ray
             = mt_t tri ray"
    by (simp only: code_t mt_t_def)
  show ?thesis
    unfolding Triangle_hit_def Let_def
    apply (fold mt_e1_def mt_e2_def mt_s_def)
    apply (fold mt_d_def)
    apply (simp add: u v t)
    by auto
qed

text \<open>A denominator below \<open>-10\<^sup>-\<^sup>6\<close> (a triangle seen from its back) is never reported.\<close>

lemma Triangle_hit_culls_negative:
  "mt_d tri ray < 0 \<Longrightarrow> \<not> hit (fst (Triangle_hit tri ray))"
  by (simp add: Triangle_hit_hit_iff)

lemmas scenario_defs = scenario_tri_def scenario_verts_def mt_d_def mt_u_def mt_v_def mt_t_def
  mt_e1_def mt_e2_def mt_s_def dot_def cross_def vsub_def

text \<open>
  C3. On the triangle \<open>v0 = (0,0,0)\<close>, \<open>v1 = (1,0,0)\<close>, \<open>v2 = (0,1,0)\<close> and the ray from
  \<open>(0.25, 0.25, 1)\<close> in direction \<open>(0, 0, -1)\<close> the specification expects a hit at distance
  about 1 and position about \<open>(0.25, 0.25, 0)\<close>. The code does report the hit and
  tightens \<open>t_max\<close> to 1, but for every interval that contains 1 and for all vertex
  normals it writes the distance 2 and the position \<open>(0.25, 0.25, 2)\<close>: the distance is
  the constant \<open>2\<close>, and the position is \<open>point - dir * t\<close>.
\<close>

theorem Triangle_hit_scenario:
  "tmin < 1 \<Longrightarrow> 1 < tmax \<Longrightarrow>
   Triangle_hit (scenario_tri n0 n1 n2)
      \<lparr>point = Vec3 (1/4) (1/4) 1, dir = Vec3 0 0 (- 1), dist_bounds = Vec2 tmin tmax\<rparr>
   = (\<lparr>origin = Vec3 (1/4) (1/4) 1, hit = True, distance = 2, position = Vec3 (1/4) (1/4) 2,
       normal = unit (vadd (vadd (smul (1/4) n1) (smul (1/4) n2)) (smul (1/2) n0))\<rparr>,
      \<lparr>point = Vec3 (1/4) (1/4) 1, dir = Vec3 0 0 (- 1), dist_bounds = Vec2 tmin 1\<rparr>)"
  by (simp add: Triangle_hit_def scenario_tri_def scenario_verts_def Let_def dot_def cross_def
      vsub_def smul_def)

theorem Triangle_hit_scenario_witness:
  "distance (fst (Triangle_hit (scenario_tri (Vec3 0 0 1) (Vec3 0 0 1) (Vec3 0 0 1))
      \<lparr>point = Vec3 (1/4) (1/4) 1, dir = Vec3 0 0 (- 1), dist_bounds = Vec2 0 1000\<rparr>)) = 2 \<and>
   position (fst (Triangle_hit (scenario_tri (Vec3 0 0 1) (Vec3 0 0 1) (Vec3 0 0 1))
      \<lparr>point = Vec3 (1/4) (1/4) 1, dir = Vec3 0 0 (- 1), dist_bounds = Vec2 0 1000\<rparr>))
     = Vec3 (1/4) (1/4) 2"
proof -
  have a: "(0::real) < 1" and b: "(1::real) < 1000" by simp_all
  show ?thesis
    using Triangle_hit_scenario [OF a b, of "Vec3 0 0 1" "Vec3 0 0 1" "Vec3 0 0 1"] by simp
qed

text \<open>
  C4, as stated, fails: the specification accepts \<open>u \<ge> 0\<close>, \<open>v \<ge> 0\<close> and
  \<open>t \<in> [t_min, t_max]\<close>, the code tests \<open>u > 0\<close>, \<open>v > 0\<close> and \<open>t_min < t < t_max\<close>. The ray
  from \<open>(0, 0.25, 1)\<close> straight down meets the scenario triangle on its edge \<open>v0 v2\<close>
  (\<open>u = 0\<close>) with denominator 1: the stated test accepts it, the code reports no hit.
\<close>

theorem Triangle_hit_boundary_counterexample:
  "mt_spec_hit (scenario_tri (Vec3 0 0 1) (Vec3 0 0 1) (Vec3 0 0 1))
      \<lparr>point = Vec3 0 (1/4) 1, dir = Vec3 0 0 (- 1), dist_bounds = Vec2 0 1000\<rparr> \<and>
   \<not> hit (fst (Triangle_hit (scenario_tri (Vec3 0 0 1) (Vec3 0 0 1) (Vec3 0 0 1))
      \<lparr>point = Vec3 0 (1/4) 1, dir = Vec3 0 0 (- 1), dist_bounds = Vec2 0 1000\<rparr>))"
  by (simp add: Triangle_hit_hit_iff mt_spec_hit_def scenario_defs)

text \<open>
  C4, amended. \<open>Triangle::hit\<close> reports no hit whenever \<open>|d| \<le> 10\<^sup>-\<^sup>6\<close>; when
  \<open>d > 10\<^sup>-\<^sup>6\<close> it reports a hit exactly when \<open>u > 0\<close>, \<open>v > 0\<close>, \<open>u + v \<le> 1\<close> and
  \<open>t_min < t < t_max\<close>, where \<open>d, u, v, t\<close> are the standard Moeller-Trumbore values.
\<close>

theorem Triangle_hit_accepts:
  "(\<bar>mt_d tri ray\<bar> \<le> 1 / 1000000 \<longrightarrow> \<not> hit (fst (Triangle_hit tri ray))) \<and>
   (1 / 1000000 < mt_d tri ray \<longrightarrow>
      (hit (fst (Triangle_hit tri ray)) \<longleftrightarrow>
         0 < mt_u tri ray \<and> 0 < mt_v tri ray \<and> mt_u tri ray + mt_v tri ray \<le> 1 \<and>
         ux (dist_bounds ray) < mt_t tri ray \<and> mt_t tri ray < uy (dist_bounds ray)))"
  by (auto simp add: Triangle_hit_hit_iff)

theorem Triangle_hit_accepts_witness:
  "1 / 1000000 < mt_d (scenario_tri (Vec3 0 0 1) (Vec3 0 0 1) (Vec3 0 0 1))
      \<lparr>point = Vec3 (1/4) (1/4) 1, dir = Vec3 0 0 (- 1), dist_bounds = Vec2 0 1000\<rparr> \<and>
   hit (fst (Triangle_hit (scenario_tri (Vec3 0 0 1) (Vec3 0 0 1) (Vec3 0 0 1))
      \<lparr>point = Vec3 (1/4) (1/4) 1, dir = Vec3 0 0 (- 1), dist_bounds = Vec2 0 1000\<rparr>))"
proof -
  let ?T = "scenario_tri (Vec3 0 0 1) (Vec3 0 0 1) (Vec3 0 0 1)"
  let ?R = "\<lparr>point = Vec3 (1/4) (1/4) 1, dir = Vec3 0 0 (- 1), dist_bounds = Vec2 0 1000\<rparr>"
  have d: "mt_d ?T ?R = 1" by (simp add: scenario_defs)
  have u: "mt_u ?T ?R = 1 / 4" by (simp add: scenario_defs)
  have v: "mt_v ?T ?R = 1 / 4" by (simp add: scenario_defs)
  have t: "mt_t ?T ?R = 1" by (simp add: scenario_defs)
  show ?thesis
    using Triangle_hit_accepts [of ?T ?R] by (simp add: d u v t)
qed

section \<open>Properties of the sphere intersection\<close>

lemma sqrt_49: "sqrt 49 = 7"
proof -
  have "sqrt (7 * 7) = \<bar>7\<bar>" by (rule real_sqrt_abs2)
  then show ?thesis by simp
qed









section \<open>Properties of the scattering functions\<close>

lemma code_y_sq:
  "(let eta_t = (if vy out_dir > 0 then ior else 1);
        eta_i = (if vy out_dir > 0 then 1 else ior);
        out_x = - vx out_dir * eta_i / eta_t;
        out_z = - vz out_dir * eta_i / eta_t
    in 1 - out_x * out_x - out_z * out_z) = snell_y_sq out_dir ior"
  by (simp add: snell_y_sq_def Let_def)

text \<open>
  C6, as stated, fails. For \<open>out_dir = (0.8, -0.6, 0)\<close> inside glass of index \<open>1.5\<close>,
  Snell's law gives \<open>y'\<^sup>2 = 1 - 1.44 \<le> 0\<close>. \<open>refract\<close> sets \<open>was_internal\<close> but returns
  \<open>out_dir\<close> itself, not the reflected direction \<open>(-0.8, -0.6, 0)\<close>, and the pure-refract
  sample has that direction and attenuation zero, not one.
\<close>

theorem refract_total_internal_counterexample:
  "snell_y_sq (Vec3 (4/5) (- 3/5) 0) (3/2) \<le> 0 \<and>
   snd (refract (Vec3 (4/5) (- 3/5) 0) (3/2)) = True \<and>
   fst (refract (Vec3 (4/5) (- 3/5) 0) (3/2)) \<noteq> reflect (Vec3 (4/5) (- 3/5) 0) \<and>
   direction (BSDF_Refract_sample \<lparr>index_of_refraction = 3/2\<rparr> (Vec3 (4/5) (- 3/5) 0))
     \<noteq> reflect (Vec3 (4/5) (- 3/5) 0) \<and>
   attenuation (BSDF_Refract_sample \<lparr>index_of_refraction = 3/2\<rparr> (Vec3 (4/5) (- 3/5) 0))
     \<noteq> Spectrum 1 1 1"
  by (simp add: snell_y_sq_def refract_def BSDF_Refract_sample_def reflect_def Let_def)

text \<open>
  C6, amended. When Snell's law gives \<open>y'\<^sup>2 \<le> 0\<close>, \<open>refract\<close> sets \<open>was_internal = true\<close>
  and returns \<open>out_dir\<close> unchanged, and the pure-refract sample returns that direction
  \<open>out_dir\<close> with attenuation 0 and pdf 1.
\<close>

theorem refract_total_internal:
  assumes "snell_y_sq out_dir ior \<le> 0"
  shows "refract out_dir ior = (out_dir, True) \<and>
         BSDF_Refract_sample \<lparr>index_of_refraction = ior\<rparr> out_dir =
           \<lparr>emissive = Spectrum 0 0 0, attenuation = Spectrum 0 0 0,
            direction = out_dir, pdf = 1\<rparr>"
proof -
  have r: "refract out_dir ior = (out_dir, True)"
    using assms code_y_sq [of out_dir ior]
    by (simp add: refract_def Let_def split: if_splits)
  show ?thesis using r by (simp add: BSDF_Refract_sample_def)
qed

theorem refract_total_internal_witness:
  "refract (Vec3 (4/5) (- 3/5) 0) (3/2) = (Vec3 (4/5) (- 3/5) 0, True) \<and>
   BSDF_Refract_sample \<lparr>index_of_refraction = 3/2\<rparr> (Vec3 (4/5) (- 3/5) 0) =
     \<lparr>emissive = Spectrum 0 0 0, attenuation = Spectrum 0 0 0,
      direction = Vec3 (4/5) (- 3/5) 0, pdf = 1\<rparr>"
proof -
  have h: "snell_y_sq (Vec3 (4/5) (- 3/5) 0) (3/2) \<le> 0"
    by (simp add: snell_y_sq_def Let_def)
  show ?thesis by (rule refract_total_internal [OF h])
qed

section \<open>Properties of the camera\<close>

text \<open>
  C7. The specification puts the sensor point at depth \<open>-focal_dist\<close>. The code scales the
  sensor's width and height by \<open>focal_dist\<close> but leaves the point at depth \<open>-1\<close>: for every
  camera and screen coordinate the ray it builds goes through
  \<open>((2u-1) w, (2v-1) h, -1)\<close>. With a 90 degree field of view, aspect ratio 1, the identity
  as \<open>iview\<close> and \<open>focal_dist = 2\<close>, the corner \<open>(1, 1)\<close> gets the direction \<open>(2, 2, -1)\<close>
  where the specification's is \<open>(2, 2, -2)\<close>.
\<close>

theorem generate_ray_sensor_depth:
  "generate_ray cam (Vec2 u v) =
     (let h = tan (vert_fov cam * (pi / 180) / 2) * focal_dist cam;
          w = h * aspect_ratio cam;
          org = mat_vec3 (iview cam) (Vec3 0 0 0)
      in (org, vsub (mat_vec3 (iview cam) (Vec3 ((2 * u - 1) * w) ((2 * v - 1) * h) (- 1))) org)) \<and>
   generate_ray \<lparr>vert_fov = 90, aspect_ratio = 1, focal_dist = 2, iview = Mat4_I\<rparr> (Vec2 1 1)
     = (Vec3 0 0 0, Vec3 2 2 (- 1)) \<and>
   spec_generate_ray \<lparr>vert_fov = 90, aspect_ratio = 1, focal_dist = 2, iview = Mat4_I\<rparr> (Vec2 1 1)
     = (Vec3 0 0 0, Vec3 2 2 (- 2))"
proof -
  have g: "generate_ray cam (Vec2 u v) =
     (let h = tan (vert_fov cam * (pi / 180) / 2) * focal_dist cam;
          w = h * aspect_ratio cam;
          org = mat_vec3 (iview cam) (Vec3 0 0 0)
      in (org, vsub (mat_vec3 (iview cam) (Vec3 ((2 * u - 1) * w) ((2 * v - 1) * h) (- 1))) org))"
    by (simp add: generate_ray_def Let_def algebra_simps)
  have c: "generate_ray \<lparr>vert_fov = 90, aspect_ratio = 1, focal_dist = 2, iview = Mat4_I\<rparr>
             (Vec2 1 1) = (Vec3 0 0 0, Vec3 2 2 (- 1))"
    by (simp add: generate_ray_def Let_def Mat4_I_def mat_vec3_def mat_vec4_def project_def
        vadd4_def smul4_def vsub_def tan_45)
  have s: "spec_generate_ray \<lparr>vert_fov = 90, aspect_ratio = 1, focal_dist = 2, iview = Mat4_I\<rparr>
             (Vec2 1 1) = (Vec3 0 0 0, Vec3 2 2 (- 2))"
    by (simp add: spec_generate_ray_def spec_sensor_def Let_def Mat4_I_def mat_vec3_def
        mat_vec4_def project_def vadd4_def smul4_def vsub_def tan_45)
  show ?thesis using g c s by simp
qed

section \<open>Properties of the mesh operations\<close>

lemmas square_defs = square_def square_hedge_def square_vert_def square_edg_def square_fac_def
  mk_halfedge_def walk_fuel_def

lemmas write_defs = set_twin_def set_next_def set_vertex_def set_edge_def set_face_def
  set_v_halfedge_def set_pos_def set_e_halfedge_def set_f_halfedge_def set_boundary_def
  erase_v_def erase_e_def erase_f_def erase_h_def

subsection \<open>\<open>flip_edge\<close> only rewires\<close>

lemma same_entities_refl: "same_entities M M"
  by (simp add: same_entities_def)

lemma same_entities_trans:
  "same_entities M M' \<Longrightarrow> same_entities M' M'' \<Longrightarrow> same_entities M M''"
  by (simp add: same_entities_def)

lemma same_entities_writes:
  "same_entities M (set_twin h t M)" "same_entities M (set_next h n M)"
  "same_entities M (set_vertex h v M)" "same_entities M (set_edge h e M)"
  "same_entities M (set_face h f M)" "same_entities M (set_v_halfedge v h M)"
  "same_entities M (set_e_halfedge e h M)" "same_entities M (set_f_halfedge f h M)"
  by (simp_all add: same_entities_def write_defs)

lemma run_stmts_same_entities:
  "\<forall>s\<in>set ss. \<forall>N. same_entities N (snd s N) \<Longrightarrow>
   same_entities M (fst (run_stmts ss M))"
proof (induction ss arbitrary: M)
  case Nil
  show ?case by (simp add: same_entities_refl)
next
  case (Cons s ss)
  obtain g w where s: "s = (g, w)" by (cases s)
  have step: "same_entities M (w M)" using Cons.prems s by simp
  have rest: "same_entities (w M) (fst (run_stmts ss (w M)))"
    by (rule Cons.IH) (simp add: Cons.prems)
  show ?case using same_entities_trans [OF step rest] s
    by (simp add: same_entities_refl)
qed

lemma flip_stmts_same_entities:
  "\<forall>s\<in>set (flip_stmts e f0 f1 l h v). \<forall>N. same_entities N (snd s N)"
  by (simp add: flip_stmts_def Let_def same_entities_writes)

lemma flip_edge_cases:
  assumes "flip_edge M e = Some (M', r)"
  shows "(on_boundary M e \<and> M' = M \<and> r = Inr None) \<or>
         (\<not> on_boundary M e \<and>
          (\<exists>l h v. M' = fst (run_stmts (flip_stmts e (face (hedge M (e_halfedge (edg M e))))
                      (face (hedge M (twin (hedge M (e_halfedge (edg M e)))))) l h v) M)) \<and>
          (r = Inr (Some e) \<or> r = Inl out_of_range))"
  using assms
  apply (auto simp add: flip_edge_def Let_def split: option.splits prod.splits if_splits)
   apply (metis fst_conv)+
  done

text \<open>
  When \<open>flip_edge\<close> comes back. On an edge that is not on the boundary, if the walks
  around its two faces close, both faces have at least three halfedges and the second
  face brings a vertex the first does not have, every index is in range and the call
  returns \<open>e\<close>.
\<close>

lemma run_stmts_completes: "\<forall>s\<in>set ss. fst s \<Longrightarrow> snd (run_stmts ss M)"
proof (induction ss arbitrary: M)
  case Nil
  show ?case by simp
next
  case (Cons s ss)
  obtain g w where s: "s = (g, w)" by (cases s)
  then show ?case using Cons by simp
qed

lemma flip_edge_returns:
  assumes nb: "\<not> on_boundary M e"
    and w1: "flip_walk1 (walk_fuel M) M (e_halfedge (edg M e))
               (next (hedge M (e_halfedge (edg M e))))
               ([e_halfedge (edg M e)], [vertex (hedge M (e_halfedge (edg M e)))], [e])
             = Some (h1, va, eRa)"
    and w2: "flip_walk2 (walk_fuel M) M (twin (hedge M (e_halfedge (edg M e))))
               (next (hedge M (twin (hedge M (e_halfedge (edg M e))))))
               (h1 @ [twin (hedge M (e_halfedge (edg M e)))],
                push_unique va (vertex (hedge M (twin (hedge M (e_halfedge (edg M e)))))),
                push_unique eRa (edge (hedge M (twin (hedge M (e_halfedge (edg M e)))))))
             = Some (h, v, eR)"
    and l1: "3 \<le> length h1" and l2: "length h1 + 3 \<le> length h" and lv: "length h1 < length v"
  shows "\<exists>M'. flip_edge M e = Some (M', Inr (Some e))"
proof -
  let ?ss = "flip_stmts e (face (hedge M (e_halfedge (edg M e))))
               (face (hedge M (twin (hedge M (e_halfedge (edg M e)))))) (length h1) h v"
  have "\<forall>s\<in>set ?ss. fst s"
    using l1 l2 lv by (auto simp add: flip_stmts_def Let_def)
  then have "snd (run_stmts ?ss M)" by (rule run_stmts_completes)
  then show ?thesis
    using nb w1 w2 by (auto simp add: flip_edge_def Let_def split: prod.splits)
qed

text \<open>
  \<open>flip_edge\<close> allocates nothing and erases nothing: whatever it does (return the
  edge, refuse, or throw from \<open>vector::at\<close>), the four element lists of the mesh and the
  four sets of erased elements are the ones it started from; only fields of existing
  elements are written. When it returns on an edge that is not on the boundary, the
  value it returns is the handle \<open>e\<close> it was given.
\<close>

lemma flip_edge_same_entities:
  assumes "flip_edge M e = Some (M', r)"
  shows "vertices M' = vertices M \<and> edges M' = edges M \<and> faces M' = faces M \<and>
         halfedges M' = halfedges M \<and> verased M' = verased M \<and> eerased M' = eerased M \<and>
         ferased M' = ferased M \<and> herased M' = herased M \<and>
         (\<forall>x. r = Inr x \<and> \<not> on_boundary M e \<longrightarrow> x = Some e)"
proof -
  from flip_edge_cases [OF assms]
  have "same_entities M M' \<and> (\<forall>x. r = Inr x \<and> \<not> on_boundary M e \<longrightarrow> x = Some e)"
    by (auto simp add: same_entities_refl
        run_stmts_same_entities [OF flip_stmts_same_entities])
  then show ?thesis by (simp add: same_entities_def)
qed

text \<open>
  The writes of \<open>flip_edge\<close> are pointer writes: no vertex moves and no face changes its
  boundary flag.
\<close>

lemma run_stmts_keeps:
  "\<forall>s\<in>set ss. \<forall>N. obs (snd s N) = obs N \<Longrightarrow> obs (fst (run_stmts ss M)) = obs M"
proof (induction ss arbitrary: M)
  case Nil
  show ?case by simp
next
  case (Cons s ss)
  obtain g w where s: "s = (g, w)" by (cases s)
  have step: "obs (w M) = obs M" using Cons.prems s by simp
  have rest: "obs (fst (run_stmts ss (w M))) = obs (w M)"
    by (rule Cons.IH) (simp add: Cons.prems)
  show ?case using step rest s by simp
qed

lemma flip_stmts_keep_positions:
  "\<forall>s\<in>set (flip_stmts e f0 f1 l h v).
     \<forall>N. (pos (vert (snd s N) x), boundary (fac (snd s N) f))
        = (pos (vert N x), boundary (fac N f))"
  by (simp add: flip_stmts_def Let_def write_defs)

lemma flip_edge_keeps_positions:
  assumes "flip_edge M e = Some (M', r)"
  shows "pos (vert M' x) = pos (vert M x) \<and> boundary (fac M' f) = boundary (fac M f)"
proof -
  have keep: "pos (vert (fst (run_stmts (flip_stmts e f0 f1 l h v) M)) x) = pos (vert M x) \<and>
              boundary (fac (fst (run_stmts (flip_stmts e f0 f1 l h v) M)) f)
                = boundary (fac M f)" for f0 f1 l h v
    using run_stmts_keeps [where obs = "\<lambda>N. (pos (vert N x), boundary (fac N f))",
          OF flip_stmts_keep_positions]
    by simp
  from flip_edge_cases [OF assms] show ?thesis
    using keep by auto
qed

lemma flip_square: "\<exists>M'. flip_edge square 1 = Some (M', Inr (Some 1))"
  by (simp add: flip_edge_def on_boundary_def square_defs Let_def flip_stmts_def
      push_unique_def eval_nat_numeral)

text \<open>
  Scenario 1 of the specification: flipping the diagonal \<open>BD\<close> of the square returns the
  same edge, and the mesh still has its four vertices, five edges, three faces and ten
  halfedges, none erased.
\<close>

lemma flip_square_same_entities:
  "\<not> on_boundary square 1 \<and>
   (\<exists>M'. flip_edge square 1 = Some (M', Inr (Some 1)) \<and>
      vertices M' = [0, 1, 2, 3] \<and> edges M' = [0, 1, 2, 3, 4] \<and> faces M' = [0, 1, 2] \<and>
      halfedges M' = [0, 1, 2, 3, 4, 5, 6, 7, 8, 9] \<and>
      verased M' = {} \<and> eerased M' = {} \<and> ferased M' = {} \<and> herased M' = {})"
proof -
  obtain M' where f: "flip_edge square 1 = Some (M', Inr (Some 1))"
    using flip_square by blast
  have nb: "\<not> on_boundary square 1" by (simp add: on_boundary_def square_defs)
  show ?thesis
    using flip_edge_same_entities [OF f] f nb by (simp add: square_def)
qed

lemmas pillow_defs = pillow_def pillow_hedge_def pillow_vert_def square_edg_def pillow_fac_def
  mk_halfedge_def walk_fuel_def

text \<open>
  C10. The claim holds on the square, but not for every edge that is off the boundary.
  The pillow satisfies the invariants of the mesh and has no boundary face. For its
  edge \<open>ab\<close> (edge 0) the walk around the first face collects the vertices \<open>a, b, c\<close>, so
  \<open>l1edges = 3\<close>; the second face has the same three vertices, none of them is pushed
  (the comment on that push says "should happen twice"), and \<open>v\<close> keeps three entries.
  The first statement of the rewiring, \<open>h.at(0)->next() = h.at(2)\<close>, is carried out; the
  second, \<open>h.at(0)->vertex() = v.at(l1edges)\<close>, throws \<open>std::out_of_range\<close>. No edge is
  returned, and the mesh is left with the \<open>next\<close> of halfedge 0 changed from 1 to 2.
\<close>

theorem flip_edge_pillow_throws:
  "halfedge_invariants pillow \<and> \<not> on_boundary pillow 0 \<and>
   flip_edge pillow 0 = Some (set_next 0 2 pillow, Inl out_of_range) \<and>
   next (hedge pillow 0) = 1 \<and> next (hedge (set_next 0 2 pillow) 0) = 2"
  by (simp add: halfedge_invariants_def flip_edge_def on_boundary_def pillow_defs Let_def
      flip_stmts_def push_unique_def eval_nat_numeral set_next_def)

subsection \<open>\<open>collapse_edge\<close> never refuses\<close>

lemma erased_grow_refl: "erased_grow M M"
  by (simp add: erased_grow_def)

lemma erased_grow_trans: "erased_grow M M' \<Longrightarrow> erased_grow M' M'' \<Longrightarrow> erased_grow M M''"
  by (auto simp add: erased_grow_def)

lemma erased_grow_set_face: "erased_grow M (set_face h f M)"
  by (simp add: erased_grow_def set_face_def)

lemma relabel_face_grow:
  "relabel_face k M stop f he = Some M' \<Longrightarrow> erased_grow M M'"
proof (induction k arbitrary: M he)
  case 0
  then show ?case by simp
next
  case (Suc k)
  show ?case
  proof (cases "next (hedge (set_face he f M) he) \<noteq> stop")
    case True
    with Suc.prems
    have "relabel_face k (set_face he f M) stop f (next (hedge (set_face he f M) he)) = Some M'"
      by (simp add: Let_def)
    from Suc.IH [OF this] show ?thesis
      by (rule erased_grow_trans [OF erased_grow_set_face])
  next
    case False
    with Suc.prems have "M' = set_face he f M" by (simp add: Let_def)
    then show ?thesis by (simp add: erased_grow_set_face)
  qed
qed

lemma erase_edge_grow:
  assumes "erase_edge M e = Some (M', r)"
  shows "erased_grow M M'"
  using assms
  apply (simp add: erase_edge_def Let_def split: if_splits option.splits)
    apply (simp_all add: erased_grow_refl)
  apply (auto dest!: relabel_face_grow simp add: erased_grow_def write_defs)
  done

lemma collapse_cleanup_grow:
  "collapse_cleanup h M = Some M' \<Longrightarrow> erased_grow M M'"
  by (auto simp add: collapse_cleanup_def erased_grow_refl split: if_splits option.splits
      dest: erase_edge_grow)

lemma collapse_square:
  "\<exists>M'. collapse_edge square 0 = Some (M', Some 0) \<and> pos (vert M' 0) = Vec3 (1/2) 0 0 \<and>
     verased M' = {1} \<and> eerased M' = {0, 1} \<and> ferased M' = {0} \<and> herased M' = {0, 1, 2, 6}"
  by (simp add: collapse_edge_def neighborhood_halfedges_def collapse_side_def
      collapse_cleanup_def square_defs Let_def write_defs eval_nat_numeral vadd_def smul_def
      insert_commute)

text \<open>
  C2, as stated, fails. In the square, vertex \<open>A\<close> has only two edges, so
  \<open>edge_collapsable\<close> answers \<open>false\<close> for the edge \<open>AB\<close> (edge 0), whatever
  \<open>neighborhood_map\<close> returns. \<open>collapse_edge\<close> on that edge does not refuse and does not
  leave the mesh alone: it returns the vertex \<open>A\<close> (vertex 0), moved to the midpoint
  \<open>(0.5, 0, 0)\<close>, and marks vertex \<open>B\<close>, the edges \<open>AB\<close> and \<open>BD\<close>, the face \<open>ABD\<close> and four
  halfedges as erased (the outcome scenario 2 of the specification expects).
\<close>

theorem collapse_edge_refusal_counterexample:
  "(\<forall>nbm. \<not> edge_collapsable nbm square 0) \<and>
   collapse_edge square 0 \<noteq> Some (square, None) \<and>
   (\<exists>M'. collapse_edge square 0 = Some (M', Some 0) \<and> pos (vert M' 0) = Vec3 (1/2) 0 0 \<and>
      verased M' = {1} \<and> eerased M' = {0, 1} \<and> ferased M' = {0} \<and>
      herased M' = {0, 1, 2, 6})"
proof -
  have a: "\<forall>nbm. \<not> edge_collapsable nbm square 0"
    by (simp add: edge_collapsable_def square_defs)
  obtain M' where c: "collapse_edge square 0 = Some (M', Some 0)"
    using collapse_square by blast
  have b: "collapse_edge square 0 \<noteq> Some (square, None)"
    by (simp add: c)
  show ?thesis
    by (rule conjI [OF a conjI [OF b collapse_square]])
qed

text \<open>
  C2, amended. \<open>collapse_edge\<close> does not consult \<open>edge_collapsable\<close> and has no refusing
  return: whenever it returns, it returns the vertex \<open>v_1\<close> at which the halfedge of \<open>e\<close>
  starts, and it has marked both halfedges of \<open>e\<close> and the other endpoint \<open>v_2\<close> as
  erased, whether or not \<open>edge_collapsable(e)\<close> holds. (The test of \<open>edge_collapsable\<close> is
  applied by \<open>simplify\<close>, which skips the edges it rejects.)
\<close>

theorem collapse_edge_never_refuses:
  assumes "collapse_edge M e = Some (M', r)"
  shows "r = Some (vertex (hedge M (e_halfedge (edg M e)))) \<and>
         e_halfedge (edg M e) \<in> herased M' \<and>
         twin (hedge M (e_halfedge (edg M e))) \<in> herased M' \<and>
         vertex (hedge M (twin (hedge M (e_halfedge (edg M e))))) \<in> verased M'"
  using assms
  apply (simp add: collapse_edge_def Let_def split: option.splits prod.splits)
  apply (auto dest!: collapse_cleanup_grow simp add: erased_grow_def write_defs)
  done

theorem collapse_edge_never_refuses_witness:
  "\<exists>M'. collapse_edge square 0 = Some (M', Some 0) \<and>
         0 \<in> herased M' \<and> 6 \<in> herased M' \<and> 1 \<in> verased M'"
proof -
  obtain M' where c: "collapse_edge square 0 = Some (M', Some 0)"
    using collapse_square by blast
  have "e_halfedge (edg square 0) \<in> herased M' \<and>
        twin (hedge square (e_halfedge (edg square 0))) \<in> herased M' \<and>
        vertex (hedge square (twin (hedge square (e_halfedge (edg square 0))))) \<in> verased M'"
    using collapse_edge_never_refuses [OF c] by simp
  then have "0 \<in> herased M' \<and> 6 \<in> herased M' \<and> 1 \<in> verased M'"
    by (simp add: square_defs)
  then show ?thesis using c by blast
qed

section \<open>Properties of the simplification\<close>

text \<open>
  C8. In the fallback the code fits \<open>a\<close>, \<open>b\<close>, \<open>c\<close> as the specification says, but then
  takes \<open>t = -a / (2 b)\<close> where the minimiser of \<open>a t\<^sup>2 + b t + c\<close> is \<open>-b / (2 a)\<close>. On
  the edge \<open>AB\<close> of the square with the quadrics \<open>quadric_A\<close> and \<open>quadric_B\<close> the matrix
  \<open>A\<close> is singular, the samples are \<open>1, 1, 3\<close>, so \<open>a = 4\<close>, \<open>b = -2\<close>, and the minimiser
  is \<open>t = 1/4\<close> with cost \<open>3/4\<close>. The code computes \<open>t = 1\<close>: it places the optimal point
  at \<open>B\<close> with cost 3, the largest cost on the edge.
\<close>

theorem Edge_Record_fallback_swapped:
  "Edge_Record_new inv4 square_quadrics square 0
     = \<lparr>rec_edge = 0, optimal = Vec3 1 0 0, cost = 3\<rparr> \<and>
   fit_a 1 1 3 = 4 \<and> fit_b 1 1 3 = - 2 \<and> spec_fallback_t 1 1 3 = 1 / 4"
proof -
  have a: "Edge_Record_new inv4 square_quadrics square 0
             = \<lparr>rec_edge = 0, optimal = Vec3 1 0 0, cost = 3\<rparr>"
    by (simp add: Edge_Record_new_def Let_def square_defs square_quadrics_def quadric_A_def
        quadric_B_def madd_def vadd4_def det_def edge_length_def vnorm_def norm_squared_def
        dot_def vsub_def invertible_threshold_def mat_vec4_def smul4_def dot4_def Vec4_of_def
        vadd_def smul_def)
  have b: "fit_a 1 1 3 = 4 \<and> fit_b 1 1 3 = - 2 \<and> spec_fallback_t 1 1 3 = 1 / 4"
    by (simp add: spec_fallback_t_def fit_a_def fit_b_def clamp01_def)
  show ?thesis using a b by simp
qed




section \<open>Properties of the hierarchy\<close>

subsection \<open>The split of the three spheres\<close>

text \<open>
  The build over \<open>three_spheres\<close>, step by step: the boxes of the spheres and of the
  root, the bin of each sphere on each axis, the per-bin counts and boxes, the four
  sweeps, the surface areas, and the fifteen costs of each axis.
\<close>

lemmas box_defs = x_box_def BBox_new_def FLT_MAX_def enclose_def enclose_point_def hmin_def
  hmax_def

lemma three_boxes: "map placed_bbox three_spheres = [x_box (- 7) 7, x_box (- 6) 8, x_box (- 5) 9]"
  by (simp add: three_spheres_def box_defs Sphere_bbox_def placed_bbox_def vadd_def)

lemma three_root_box:
  "fold (\<lambda>p box. enclose box (placed_bbox p)) three_spheres BBox_new = x_box (- 7) 9"
  by (simp add: three_spheres_def box_defs Sphere_bbox_def placed_bbox_def vadd_def)

lemma three_bins0: "map (bin_of (- 7) 9 0) [x_box (- 7) 7, x_box (- 6) 8, x_box (- 5) 9] = [7, 8, 9]"
  by (simp add: bin_of_def trunc_def N_BINS_def vidx_def x_box_def)

lemma three_bins1: "map (bin_of (- 7) 7 1) [x_box (- 7) 7, x_box (- 6) 8, x_box (- 5) 9] = [8, 8, 8]"
  by (simp add: bin_of_def trunc_def N_BINS_def vidx_def x_box_def)

lemma three_bins2: "map (bin_of (- 7) 7 2) [x_box (- 7) 7, x_box (- 6) 8, x_box (- 5) 9] = [8, 8, 8]"
  by (simp add: bin_of_def trunc_def N_BINS_def vidx_def x_box_def)

lemma three_enclose:
  "enclose BBox_new BBox_new = BBox_new"
  "enclose BBox_new (x_box (- 7) 7) = x_box (- 7) 7"
  "enclose BBox_new (x_box (- 6) 8) = x_box (- 6) 8"
  "enclose BBox_new (x_box (- 5) 9) = x_box (- 5) 9"
  "enclose BBox_new (x_box (- 7) 9) = x_box (- 7) 9"
  "enclose (x_box (- 7) 7) BBox_new = x_box (- 7) 7"
  "enclose (x_box (- 7) 8) BBox_new = x_box (- 7) 8"
  "enclose (x_box (- 7) 9) BBox_new = x_box (- 7) 9"
  "enclose (x_box (- 5) 9) BBox_new = x_box (- 5) 9"
  "enclose (x_box (- 6) 9) BBox_new = x_box (- 6) 9"
  "enclose (x_box (- 7) 7) (x_box (- 6) 8) = x_box (- 7) 8"
  "enclose (x_box (- 7) 8) (x_box (- 5) 9) = x_box (- 7) 9"
  "enclose (x_box (- 5) 9) (x_box (- 6) 8) = x_box (- 6) 9"
  "enclose (x_box (- 6) 9) (x_box (- 7) 7) = x_box (- 7) 9"
  by (simp_all add: box_defs)

lemma three_fill0:
  "fill_bins (- 7) 9 0 [x_box (- 7) 7, x_box (- 6) 8, x_box (- 5) 9]
     ([], replicate N_BINS 0, replicate N_BINS BBox_new)
   = ([7, 8, 9],
      [0, 0, 0, 0, 0, 0, 0, 1, 1, 1, 0, 0, 0, 0, 0, 0],
      [BBox_new, BBox_new, BBox_new, BBox_new, BBox_new, BBox_new, BBox_new, x_box (- 7) 7,
      x_box (- 6) 8, x_box (- 5) 9, BBox_new, BBox_new, BBox_new, BBox_new, BBox_new,
      BBox_new])"
  using three_bins0
  by (simp add: N_BINS_def eval_nat_numeral three_enclose)

lemma three_fill1:
  "fill_bins (- 7) 7 1 [x_box (- 7) 7, x_box (- 6) 8, x_box (- 5) 9]
     ([], replicate N_BINS 0, replicate N_BINS BBox_new)
   = ([8, 8, 8],
      [0, 0, 0, 0, 0, 0, 0, 0, 3, 0, 0, 0, 0, 0, 0, 0],
      [BBox_new, BBox_new, BBox_new, BBox_new, BBox_new, BBox_new, BBox_new, BBox_new, x_box
      (- 7) 9, BBox_new, BBox_new, BBox_new, BBox_new, BBox_new, BBox_new, BBox_new])"
  using three_bins1
  by (simp add: N_BINS_def eval_nat_numeral three_enclose)

lemma three_fill2:
  "fill_bins (- 7) 7 2 [x_box (- 7) 7, x_box (- 6) 8, x_box (- 5) 9]
     ([], replicate N_BINS 0, replicate N_BINS BBox_new)
   = ([8, 8, 8],
      [0, 0, 0, 0, 0, 0, 0, 0, 3, 0, 0, 0, 0, 0, 0, 0],
      [BBox_new, BBox_new, BBox_new, BBox_new, BBox_new, BBox_new, BBox_new, BBox_new, x_box
      (- 7) 9, BBox_new, BBox_new, BBox_new, BBox_new, BBox_new, BBox_new, BBox_new])"
  using three_bins2
  by (simp add: N_BINS_def eval_nat_numeral three_enclose)

lemma three_sweeps0:
  "sweep_bbox BBox_new
     [BBox_new, BBox_new, BBox_new, BBox_new, BBox_new, BBox_new, BBox_new, x_box (- 7) 7,
     x_box (- 6) 8, x_box (- 5) 9, BBox_new, BBox_new, BBox_new, BBox_new, BBox_new, BBox_new]
   = [BBox_new, BBox_new, BBox_new, BBox_new, BBox_new, BBox_new, BBox_new, BBox_new, x_box (-
     7) 7, x_box (- 7) 8, x_box (- 7) 9, x_box (- 7) 9, x_box (- 7) 9, x_box (- 7) 9, x_box (-
     7) 9, x_box (- 7) 9, x_box (- 7) 9]"
  "sweep_bbox BBox_new
     (rev [BBox_new, BBox_new, BBox_new, BBox_new, BBox_new, BBox_new, BBox_new, x_box (- 7)
          7, x_box (- 6) 8, x_box (- 5) 9, BBox_new, BBox_new, BBox_new, BBox_new, BBox_new,
          BBox_new])
   = [BBox_new, BBox_new, BBox_new, BBox_new, BBox_new, BBox_new, BBox_new, x_box (- 5) 9,
     x_box (- 6) 9, x_box (- 7) 9, x_box (- 7) 9, x_box (- 7) 9, x_box (- 7) 9, x_box (- 7) 9,
     x_box (- 7) 9, x_box (- 7) 9, x_box (- 7) 9]"
  "sweep_sum 0 [0, 0, 0, 0, 0, 0, 0, 1, 1, 1, 0, 0, 0, 0, 0, 0]
   = [0, 0, 0, 0, 0, 0, 0, 0, 1, 2, 3, 3, 3, 3, 3, 3, 3]"
  "sweep_sum 0 (rev [0, 0, 0, 0, 0, 0, 0, 1, 1, 1, 0, 0, 0, 0, 0, 0])
   = [0, 0, 0, 0, 0, 0, 0, 1, 2, 3, 3, 3, 3, 3, 3, 3, 3]"
  by (simp_all add: three_enclose)

lemma three_sweeps1:
  "sweep_bbox BBox_new
     [BBox_new, BBox_new, BBox_new, BBox_new, BBox_new, BBox_new, BBox_new, BBox_new, x_box (-
     7) 9, BBox_new, BBox_new, BBox_new, BBox_new, BBox_new, BBox_new, BBox_new]
   = [BBox_new, BBox_new, BBox_new, BBox_new, BBox_new, BBox_new, BBox_new, BBox_new,
     BBox_new, x_box (- 7) 9, x_box (- 7) 9, x_box (- 7) 9, x_box (- 7) 9, x_box (- 7) 9,
     x_box (- 7) 9, x_box (- 7) 9, x_box (- 7) 9]"
  "sweep_bbox BBox_new
     (rev [BBox_new, BBox_new, BBox_new, BBox_new, BBox_new, BBox_new, BBox_new, BBox_new,
          x_box (- 7) 9, BBox_new, BBox_new, BBox_new, BBox_new, BBox_new, BBox_new, BBox_new])
   = [BBox_new, BBox_new, BBox_new, BBox_new, BBox_new, BBox_new, BBox_new, BBox_new, x_box (-
     7) 9, x_box (- 7) 9, x_box (- 7) 9, x_box (- 7) 9, x_box (- 7) 9, x_box (- 7) 9, x_box (-
     7) 9, x_box (- 7) 9, x_box (- 7) 9]"
  "sweep_sum 0 [0, 0, 0, 0, 0, 0, 0, 0, 3, 0, 0, 0, 0, 0, 0, 0]
   = [0, 0, 0, 0, 0, 0, 0, 0, 0, 3, 3, 3, 3, 3, 3, 3, 3]"
  "sweep_sum 0 (rev [0, 0, 0, 0, 0, 0, 0, 0, 3, 0, 0, 0, 0, 0, 0, 0])
   = [0, 0, 0, 0, 0, 0, 0, 0, 3, 3, 3, 3, 3, 3, 3, 3, 3]"
  by (simp_all add: three_enclose)

lemma three_areas:
  "surface_area BBox_new = 0"
  "surface_area (x_box (- 7) 7) = 1176"
  "surface_area (x_box (- 5) 9) = 1176"
  "surface_area (x_box (- 7) 8) = 1232"
  "surface_area (x_box (- 6) 9) = 1232"
  "surface_area (x_box (- 7) 9) = 1288"
  by (simp_all add: surface_area_def box_empty_def x_box_def BBox_new_def FLT_MAX_def vsub_def
      Let_def)

lemma upt_bins: "[1 ..< N_BINS] = [1, 2, 3, 4, 5, 6, 7, 8, 9, 10, 11, 12, 13, 14, 15]"
  by (simp add: N_BINS_def upt_rec)

lemma upt_axes: "[0 ..< 3] = [0, 1, 2]"
  by (simp add: upt_rec)

text \<open>
  On the \<open>x\<close> axis the costs are 3864 for the splits 1 to 7, 3640 for the splits 8 and 9
  and 3864 again from 10 on, so split 8 is kept; on \<open>y\<close> and \<open>z\<close> every split costs 3864.
\<close>

lemma three_costs0:
  "fold (try_split 0 [7, 8, 9]
     [BBox_new, BBox_new, BBox_new, BBox_new, BBox_new, BBox_new, BBox_new, BBox_new, x_box (-
     7) 7, x_box (- 7) 8, x_box (- 7) 9, x_box (- 7) 9, x_box (- 7) 9, x_box (- 7) 9, x_box (-
     7) 9, x_box (- 7) 9, x_box (- 7) 9]
     [BBox_new, BBox_new, BBox_new, BBox_new, BBox_new, BBox_new, BBox_new, x_box (- 5) 9,
     x_box (- 6) 9, x_box (- 7) 9, x_box (- 7) 9, x_box (- 7) 9, x_box (- 7) 9, x_box (- 7) 9,
     x_box (- 7) 9, x_box (- 7) 9, x_box (- 7) 9]
     [0, 0, 0, 0, 0, 0, 0, 0, 1, 2, 3, 3, 3, 3, 3, 3, 3]
     [0, 0, 0, 0, 0, 0, 0, 1, 2, 3, 3, 3, 3, 3, 3, 3, 3])
     [1, 2, 3, 4, 5, 6, 7, 8, 9, 10, 11, 12, 13, 14, 15]
     Split_new
   = \<lparr>min_cost = 3640, best_axis = 0, best_split = 8, best_bin_cnt = [7, 8, 9],
        best_left = x_box (- 7) 7, best_right = x_box (- 6) 9\<rparr>"
  by (simp add: try_split_def Split_new_def N_BINS_def three_areas FLT_MAX_def)

lemma three_costs1:
  "fold (try_split 1 [8, 8, 8]
     [BBox_new, BBox_new, BBox_new, BBox_new, BBox_new, BBox_new, BBox_new, BBox_new,
     BBox_new, x_box (- 7) 9, x_box (- 7) 9, x_box (- 7) 9, x_box (- 7) 9, x_box (- 7) 9,
     x_box (- 7) 9, x_box (- 7) 9, x_box (- 7) 9]
     [BBox_new, BBox_new, BBox_new, BBox_new, BBox_new, BBox_new, BBox_new, BBox_new, x_box (-
     7) 9, x_box (- 7) 9, x_box (- 7) 9, x_box (- 7) 9, x_box (- 7) 9, x_box (- 7) 9, x_box (-
     7) 9, x_box (- 7) 9, x_box (- 7) 9]
     [0, 0, 0, 0, 0, 0, 0, 0, 0, 3, 3, 3, 3, 3, 3, 3, 3]
     [0, 0, 0, 0, 0, 0, 0, 0, 3, 3, 3, 3, 3, 3, 3, 3, 3])
     [1, 2, 3, 4, 5, 6, 7, 8, 9, 10, 11, 12, 13, 14, 15]
     \<lparr>min_cost = 3640, best_axis = 0, best_split = 8, best_bin_cnt = [7, 8, 9],
        best_left = x_box (- 7) 7, best_right = x_box (- 6) 9\<rparr>
   = \<lparr>min_cost = 3640, best_axis = 0, best_split = 8, best_bin_cnt = [7, 8, 9],
        best_left = x_box (- 7) 7, best_right = x_box (- 6) 9\<rparr>"
  by (simp add: try_split_def N_BINS_def three_areas)

lemma three_costs2:
  "fold (try_split 2 [8, 8, 8]
     [BBox_new, BBox_new, BBox_new, BBox_new, BBox_new, BBox_new, BBox_new, BBox_new,
     BBox_new, x_box (- 7) 9, x_box (- 7) 9, x_box (- 7) 9, x_box (- 7) 9, x_box (- 7) 9,
     x_box (- 7) 9, x_box (- 7) 9, x_box (- 7) 9]
     [BBox_new, BBox_new, BBox_new, BBox_new, BBox_new, BBox_new, BBox_new, BBox_new, x_box (-
     7) 9, x_box (- 7) 9, x_box (- 7) 9, x_box (- 7) 9, x_box (- 7) 9, x_box (- 7) 9, x_box (-
     7) 9, x_box (- 7) 9, x_box (- 7) 9]
     [0, 0, 0, 0, 0, 0, 0, 0, 0, 3, 3, 3, 3, 3, 3, 3, 3]
     [0, 0, 0, 0, 0, 0, 0, 0, 3, 3, 3, 3, 3, 3, 3, 3, 3])
     [1, 2, 3, 4, 5, 6, 7, 8, 9, 10, 11, 12, 13, 14, 15]
     \<lparr>min_cost = 3640, best_axis = 0, best_split = 8, best_bin_cnt = [7, 8, 9],
        best_left = x_box (- 7) 7, best_right = x_box (- 6) 9\<rparr>
   = \<lparr>min_cost = 3640, best_axis = 0, best_split = 8, best_bin_cnt = [7, 8, 9],
        best_left = x_box (- 7) 7, best_right = x_box (- 6) 9\<rparr>"
  by (simp add: try_split_def N_BINS_def three_areas)

lemma three_lohi:
  "vidx (bmin (x_box (- 7) 9)) 0 = - 7" "vidx (bmax (x_box (- 7) 9)) 0 = 9"
  "vidx (bmin (x_box (- 7) 9)) 1 = - 7" "vidx (bmax (x_box (- 7) 9)) 1 = 7"
  "vidx (bmin (x_box (- 7) 9)) 2 = - 7" "vidx (bmax (x_box (- 7) 9)) 2 = 7"
  by (simp_all add: vidx_def x_box_def)

lemma three_axis0:
  "try_axis (x_box (- 7) 9) [x_box (- 7) 7, x_box (- 6) 8, x_box (- 5) 9] 0 Split_new
   = \<lparr>min_cost = 3640, best_axis = 0, best_split = 8, best_bin_cnt = [7, 8, 9],
        best_left = x_box (- 7) 7, best_right = x_box (- 6) 9\<rparr>"
  by (simp only: try_axis_def three_lohi Let_def three_fill0 prod.case three_sweeps0 upt_bins
      three_costs0)

lemma three_axis1:
  "try_axis (x_box (- 7) 9) [x_box (- 7) 7, x_box (- 6) 8, x_box (- 5) 9] 1
     \<lparr>min_cost = 3640, best_axis = 0, best_split = 8, best_bin_cnt = [7, 8, 9],
        best_left = x_box (- 7) 7, best_right = x_box (- 6) 9\<rparr>
   = \<lparr>min_cost = 3640, best_axis = 0, best_split = 8, best_bin_cnt = [7, 8, 9],
        best_left = x_box (- 7) 7, best_right = x_box (- 6) 9\<rparr>"
  by (simp only: try_axis_def three_lohi Let_def three_fill1 prod.case three_sweeps1 upt_bins
      three_costs1)

lemma three_axis2:
  "try_axis (x_box (- 7) 9) [x_box (- 7) 7, x_box (- 6) 8, x_box (- 5) 9] 2
     \<lparr>min_cost = 3640, best_axis = 0, best_split = 8, best_bin_cnt = [7, 8, 9],
        best_left = x_box (- 7) 7, best_right = x_box (- 6) 9\<rparr>
   = \<lparr>min_cost = 3640, best_axis = 0, best_split = 8, best_bin_cnt = [7, 8, 9],
        best_left = x_box (- 7) 7, best_right = x_box (- 6) 9\<rparr>"
  by (simp only: try_axis_def three_lohi Let_def three_fill2 prod.case three_sweeps1 upt_bins
      three_costs2)

lemma three_split:
  "find_split (x_box (- 7) 9) [x_box (- 7) 7, x_box (- 6) 8, x_box (- 5) 9]
   = \<lparr>min_cost = 3640, best_axis = 0, best_split = 8, best_bin_cnt = [7, 8, 9],
        best_left = x_box (- 7) 7, best_right = x_box (- 6) 9\<rparr>"
  by (simp only: find_split_def upt_axes fold_simps three_axis0 three_axis1 three_axis2)

subsection \<open>The tree and the two scans\<close>

lemma build_subtree_leaf:
  "n_size (nodes bvh a) \<le> m \<Longrightarrow> build_subtree f bvh a m = Some bvh"
  by (subst build_subtree.simps) (simp add: Let_def)

lemma build_three:
  "\<exists>bvh. build placed_bbox BVH_new three_spheres 2 = Some bvh \<and>
     nodes bvh 0 = \<lparr>n_bbox = x_box (- 7) 9, n_start = 0, n_size = 3, n_l = 1, n_r = 2\<rparr> \<and>
     nodes bvh 1 = \<lparr>n_bbox = x_box (- 7) 7, n_start = 0, n_size = 2, n_l = 0, n_r = 0\<rparr> \<and>
     nodes bvh 2 = \<lparr>n_bbox = x_box (- 6) 9, n_start = 2, n_size = 1, n_l = 0, n_r = 0\<rparr> \<and>
     n_nodes bvh = 3 \<and> primitives bvh = three_spheres \<and> root_idx bvh = 0"
proof -
  have len: "length three_spheres = 3" by (simp add: three_spheres_def)
  have z: "zip three_spheres [7, 8, 9::nat] =
     [(three_spheres ! 0, 7), (three_spheres ! 1, 8), (three_spheres ! 2, 9)]"
    by (simp add: three_spheres_def)
  have ts: "[three_spheres ! 0, three_spheres ! 1, three_spheres ! 2] = three_spheres"
    by (simp add: three_spheres_def)
  have ne: "three_spheres \<noteq> []" by (simp add: three_spheres_def)
  show ?thesis
    unfolding build_def
    apply (simp only: Let_def ne if_False three_root_box)
    apply (subst build_subtree.simps)
    apply (simp add: new_node_def set_node_def BVH_new_def node_prims_def len three_boxes three_split z
        goes_left_def Let_def build_subtree_leaf)
    apply (simp add: three_spheres_def)
    done
qed


lemmas sphere_defs = placed_hit_def Sphere_hit_def Let_def dot_def norm_squared_def vsub_def
  vadd_def smul_def unit_def vnorm_def sqrt_49

lemma probe_boxes:
  "BBox_hit (x_box (- 7) 9) probe_ray (Vec2 0 1000) = (True, Vec2 0 (3 / 2))"
  "BBox_hit (x_box (- 7) 7) probe_ray (Vec2 0 1000) = (False, Vec2 0 (- 1 / 2))"
  "BBox_hit (x_box (- 6) 9) probe_ray (Vec2 0 1000) = (True, Vec2 0 (3 / 2))"
  by (simp_all add: BBox_hit_def slab_def probe_ray_def x_box_def Let_def)

lemma probe_first:
  "placed_hit \<lparr>centre = Vec3 0 0 0, shape = \<lparr>radius = 7\<rparr>\<rparr> probe_ray =
     (\<lparr>origin = Vec3 (15 / 2) 0 0, hit = False, distance = 0, position = Vec3 0 0 0,
        normal = Vec3 0 0 0\<rparr>, probe_ray)"
  by (simp add: sphere_defs probe_ray_def)

lemma probe_second:
  "placed_hit \<lparr>centre = Vec3 1 0 0, shape = \<lparr>radius = 7\<rparr>\<rparr> probe_ray =
     (\<lparr>origin = Vec3 (15 / 2) 0 0, hit = True, distance = 1 / 2, position = Vec3 2 0 0,
        normal = Vec3 1 0 0\<rparr>, probe_ray\<lparr>dist_bounds := Vec2 0 (1 / 2)\<rparr>)"
  by (simp add: sphere_defs probe_ray_def)

lemma probe_third:
  "placed_hit \<lparr>centre = Vec3 2 0 0, shape = \<lparr>radius = 7\<rparr>\<rparr> probe_ray =
     (\<lparr>origin = Vec3 (15 / 2) 0 0, hit = True, distance = 3 / 2, position = Vec3 3 0 0,
        normal = Vec3 1 0 0\<rparr>, probe_ray\<lparr>dist_bounds := Vec2 0 (3 / 2)\<rparr>)"
  by (simp add: sphere_defs probe_ray_def)

lemma probe_third_again:
  "placed_hit \<lparr>centre = Vec3 2 0 0, shape = \<lparr>radius = 7\<rparr>\<rparr>
      (probe_ray\<lparr>dist_bounds := Vec2 0 (3 / 2)\<rparr>) =
     (\<lparr>origin = Vec3 (15 / 2) 0 0, hit = False, distance = 0, position = Vec3 0 0 0,
        normal = Vec3 0 0 0\<rparr>, probe_ray\<lparr>dist_bounds := Vec2 0 (3 / 2)\<rparr>)"
  by (simp add: sphere_defs probe_ray_def)

lemma probe_third_after_second:
  "placed_hit \<lparr>centre = Vec3 2 0 0, shape = \<lparr>radius = 7\<rparr>\<rparr>
      (probe_ray\<lparr>dist_bounds := Vec2 0 (1 / 2)\<rparr>) =
     (\<lparr>origin = Vec3 (15 / 2) 0 0, hit = False, distance = 0, position = Vec3 0 0 0,
        normal = Vec3 0 0 0\<rparr>, probe_ray\<lparr>dist_bounds := Vec2 0 (1 / 2)\<rparr>)"
  by (simp add: sphere_defs probe_ray_def)

lemma linear_three:
  "linear_scan placed_hit three_spheres probe_ray =
     \<lparr>origin = Vec3 (15 / 2) 0 0, hit = True, distance = 1 / 2, position = Vec3 2 0 0,
        normal = Vec3 1 0 0\<rparr>"
  by (simp add: linear_scan_def three_spheres_def probe_first probe_second
      probe_third_after_second Trace_min_def Trace_new_def)

lemma hit_three:
  assumes n0: "nodes bvh 0 = \<lparr>n_bbox = x_box (- 7) 9, n_start = 0, n_size = 3, n_l = 1, n_r = 2\<rparr>"
    and n1: "nodes bvh 1 = \<lparr>n_bbox = x_box (- 7) 7, n_start = 0, n_size = 2, n_l = 0, n_r = 0\<rparr>"
    and n2: "nodes bvh 2 = \<lparr>n_bbox = x_box (- 6) 9, n_start = 2, n_size = 1, n_l = 0, n_r = 0\<rparr>"
    and nn: "n_nodes bvh = 3" and pr: "primitives bvh = three_spheres" and ri: "root_idx bvh = 0"
  shows "BVH_hit placed_hit bvh probe_ray =
     Some \<lparr>origin = Vec3 (15 / 2) 0 0, hit = True, distance = 3 / 2, position = Vec3 3 0 0,
        normal = Vec3 1 0 0\<rparr>"
proof -
  have db: "dist_bounds probe_ray = Vec2 0 1000" by (simp add: probe_ray_def)
  have db2: "dist_bounds (probe_ray\<lparr>dist_bounds := Vec2 0 (3 / 2)\<rparr>) = Vec2 0 (3 / 2)" by simp
  have leaf: "node_prims bvh \<lparr>n_bbox = x_box (- 6) 9, n_start = 2, n_size = Suc 0, n_l = 0, n_r = 0\<rparr>
      = [\<lparr>centre = Vec3 2 0 0, shape = \<lparr>radius = 7\<rparr>\<rparr>]"
    by (simp add: node_prims_def pr three_spheres_def)
  have three: "(3::nat) = Suc (Suc (Suc 0))" by simp
  have n1': "nodes bvh (Suc 0) =
      \<lparr>n_bbox = x_box (- 7) 7, n_start = 0, n_size = 2, n_l = 0, n_r = 0\<rparr>"
    using n1 by simp
  show ?thesis
    unfolding BVH_hit_def nn ri three
    by (simp add: n0 n1' n2 db probe_boxes leaf probe_third probe_third_again Trace_min_def
        Trace_new_def Let_def)
qed

lemma tri_build:
  "\<exists>bvh. build Triangle_bbox BVH_new [flat_tri] 4 = Some bvh \<and>
     n_nodes bvh = 1 \<and> root_idx bvh = 0 \<and>
     n_bbox (nodes bvh 0) =
       \<lparr>bmin = Vec3 0 0 0, bmax = Vec3 (- FLT_MAX) (- FLT_MAX) (- FLT_MAX)\<rparr>"
  unfolding build_def
  by (simp add: Let_def new_node_def set_node_def BVH_new_def build_subtree_leaf
      Triangle_bbox_def flat_tri_def scenario_tri_def scenario_verts_def BBox_new_def
      enclose_def hmin_def hmax_def FLT_MAX_def)

lemma tri_root_missed:
  "BBox_hit \<lparr>bmin = Vec3 0 0 0, bmax = Vec3 (- FLT_MAX) (- FLT_MAX) (- FLT_MAX)\<rparr>
      down_ray (dist_bounds down_ray) = (False, Vec2 0 1000)"
  by (simp add: BBox_hit_def slab_def down_ray_def FLT_MAX_def)

lemma tri_linear: "hit (linear_scan Triangle_hit [flat_tri] down_ray)"
proof -
  have a: "(0::real) < 1" and b: "(1::real) < 1000" by simp_all
  have "Triangle_hit flat_tri down_ray =
    (\<lparr>origin = Vec3 (1/4) (1/4) 1, hit = True, distance = 2, position = Vec3 (1/4) (1/4) 2,
       normal = unit (vadd (vadd (smul (1/4) (Vec3 0 0 1)) (smul (1/4) (Vec3 0 0 1)))
                           (smul (1/2) (Vec3 0 0 1)))\<rparr>,
      \<lparr>point = Vec3 (1/4) (1/4) 1, dir = Vec3 0 0 (- 1), dist_bounds = Vec2 0 1\<rparr>)"
    by (simp add: Triangle_hit_def flat_tri_def down_ray_def scenario_tri_def scenario_verts_def
        Let_def dot_def cross_def vsub_def smul_def)
  then show ?thesis
    by (simp add: linear_scan_def Trace_min_def Trace_new_def)
qed

lemma tri_bvh:
  "\<exists>bvh. build Triangle_bbox BVH_new [flat_tri] 4 = Some bvh \<and>
     BVH_hit Triangle_hit bvh down_ray = Some Trace_new"
proof -
  obtain bvh where b: "build Triangle_bbox BVH_new [flat_tri] 4 = Some bvh"
    and nn: "n_nodes bvh = 1" and ri: "root_idx bvh = 0"
    and bb: "n_bbox (nodes bvh 0) =
       \<lparr>bmin = Vec3 0 0 0, bmax = Vec3 (- FLT_MAX) (- FLT_MAX) (- FLT_MAX)\<rparr>"
    using tri_build by blast
  have "BVH_hit Triangle_hit bvh down_ray = Some Trace_new"
    by (simp add: BVH_hit_def nn ri bb tri_root_missed)
  then show ?thesis using b by blast
qed


lemma three_bvh:
  "\<exists>bvh. build placed_bbox BVH_new three_spheres 2 = Some bvh \<and>
     BVH_hit placed_hit bvh probe_ray =
       Some \<lparr>origin = Vec3 (15 / 2) 0 0, hit = True, distance = 3 / 2, position = Vec3 3 0 0,
          normal = Vec3 1 0 0\<rparr>"
proof -
  obtain bvh where b: "build placed_bbox BVH_new three_spheres 2 = Some bvh"
    and n0: "nodes bvh 0 = \<lparr>n_bbox = x_box (- 7) 9, n_start = 0, n_size = 3, n_l = 1, n_r = 2\<rparr>"
    and n1: "nodes bvh 1 = \<lparr>n_bbox = x_box (- 7) 7, n_start = 0, n_size = 2, n_l = 0, n_r = 0\<rparr>"
    and n2: "nodes bvh 2 = \<lparr>n_bbox = x_box (- 6) 9, n_start = 2, n_size = 1, n_l = 0, n_r = 0\<rparr>"
    and nn: "n_nodes bvh = 3" and pr: "primitives bvh = three_spheres" and ri: "root_idx bvh = 0"
    using build_three by blast
  show ?thesis
    using b hit_three [OF n0 n1 n2 nn pr ri] by blast
qed

text \<open>
  C1. \<open>BVH::hit\<close> should return what a linear scan over the primitives returns. Two
  inputs on which it does not:

  \<^item> Three spheres of radius 7 centred at \<open>x = 0, 1, 2\<close>, built with
    \<open>max_leaf_size = 2\<close>. Their centroids fall into the bins 7, 8 and 9 of the \<open>x\<close>
    axis; the cheapest split is \<open>i = 8\<close>, whose left box \<open>left_bbox[8]\<close> encloses the
    bins below 8 (the first sphere only) and whose right box encloses the bins from 8
    on. The partition tests \<open>bin <= best_split\<close> and so sends the second sphere (bin 8)
    to the left child, outside that child's box. The ray from \<open>(7.5, 0, 0)\<close> along \<open>x\<close>
    leaves the second sphere at distance \<open>0.5\<close> and the third at \<open>1.5\<close>; it misses the
    left child's box, so the traversal never tests the second sphere and returns the
    hit at \<open>1.5\<close>, while the linear scan returns the hit at \<open>0.5\<close>.
  \<^item> The single triangle of scenario 6 with its ray. \<open>Triangle::bbox\<close> sets only the
    min corner of its box, so the root box is empty, \<open>BVH::hit\<close> stops at the root
    and reports a miss, while the linear scan (\<open>Triangle::hit\<close>) reports a hit.
\<close>

theorem BVH_hit_differs_from_linear_scan:
  "(\<exists>bvh. build placed_bbox BVH_new three_spheres 2 = Some bvh \<and>
      (\<exists>t. BVH_hit placed_hit bvh probe_ray = Some t \<and> hit t \<and> distance t = 3 / 2)) \<and>
   hit (linear_scan placed_hit three_spheres probe_ray) \<and>
   distance (linear_scan placed_hit three_spheres probe_ray) = 1 / 2 \<and>
   (\<exists>bvh. build Triangle_bbox BVH_new [flat_tri] 4 = Some bvh \<and>
      (\<exists>t. BVH_hit Triangle_hit bvh down_ray = Some t \<and> \<not> hit t)) \<and>
   hit (linear_scan Triangle_hit [flat_tri] down_ray)"
proof -
  obtain b1 where s: "build placed_bbox BVH_new three_spheres 2 = Some b1"
    and sh: "BVH_hit placed_hit b1 probe_ray =
       Some \<lparr>origin = Vec3 (15 / 2) 0 0, hit = True, distance = 3 / 2, position = Vec3 3 0 0,
          normal = Vec3 1 0 0\<rparr>"
    using three_bvh by blast
  obtain b2 where t: "build Triangle_bbox BVH_new [flat_tri] 4 = Some b2"
    and th: "BVH_hit Triangle_hit b2 down_ray = Some Trace_new"
    using tri_bvh by blast
  have p1: "\<exists>bvh. build placed_bbox BVH_new three_spheres 2 = Some bvh \<and>
      (\<exists>t. BVH_hit placed_hit bvh probe_ray = Some t \<and> hit t \<and> distance t = 3 / 2)"
    using s sh by simp
  have p2: "hit (linear_scan placed_hit three_spheres probe_ray) \<and>
      distance (linear_scan placed_hit three_spheres probe_ray) = 1 / 2"
    by (simp add: linear_three)
  have p3: "\<exists>bvh. build Triangle_bbox BVH_new [flat_tri] 4 = Some bvh \<and>
      (\<exists>t. BVH_hit Triangle_hit bvh down_ray = Some t \<and> \<not> hit t)"
    using t th by (simp add: Trace_new_def)
  show ?thesis
    using p1 p2 p3 tri_linear by simp
qed

end
